theory Spec2Isabelle
  imports Main "HOL-Library.Word"
begin

chapter \<open>The envoy supervisor of pomerium (internal/envoy/envoy.go)\<close>

text \<open>
  A shallow embedding of \<^verbatim>\<open>internal/envoy/envoy.go\<close>: the log relay
  (\<^verbatim>\<open>parseLog\<close>, \<^verbatim>\<open>handleLogs\<close>), the bootstrap builder
  (\<^verbatim>\<open>buildBootstrapConfig\<close>) and the supervisor (\<^verbatim>\<open>NewServer\<close>,
  \<^verbatim>\<open>update\<close>, \<^verbatim>\<open>run\<close>, \<^verbatim>\<open>Close\<close>).
  Go strings are byte strings: \<^typ>\<open>string\<close>, one \<^typ>\<open>char\<close> per byte.
  Errors are values; effects on the operating system are recorded as a list of events.
\<close>

section \<open>Functions of the Go standard library that the file calls\<close>

subsection \<open>Package strings\<close>

definition byte :: "char \<Rightarrow> nat" where
  "byte c = of_char c"







subsection \<open>Package unicode/utf8\<close>










subsection \<open>Package strconv\<close>

datatype NumError = ErrSyntax | ErrRange

definition isDigit :: "char \<Rightarrow> bool" where
  "isDigit c = (48 \<le> byte c \<and> byte c \<le> 57)"

text \<open>
  The digit loop of \<^verbatim>\<open>strconv.ParseUint\<close> in base 10 (no underscore is accepted in an
  explicit base): a byte that is no digit is a syntax error, and the loop stops with a
  range error as soon as the number read so far passes \<open>maxVal\<close>.
\<close>

fun parseDigits :: "nat \<Rightarrow> nat \<Rightarrow> string \<Rightarrow> NumError + nat" where
  "parseDigits maxVal acc [] = Inr acc"
| "parseDigits maxVal acc (c # t) =
     (if \<not> isDigit c then Inl ErrSyntax
      else let n1 = acc * 10 + (byte c - 48) in
           if maxVal < n1 then Inl ErrRange else parseDigits maxVal n1 t)"

text \<open>\<^verbatim>\<open>strconv.ParseUint(s, 10, bitSize)\<close>: no sign, at least one digit.\<close>

definition ParseUint10 :: "string \<Rightarrow> nat \<Rightarrow> NumError + nat" where
  "ParseUint10 s bitSize = (if s = [] then Inl ErrSyntax else parseDigits (2 ^ bitSize - 1) 0 s)"

text \<open>
  \<^verbatim>\<open>strconv.Atoi\<close> where \<^verbatim>\<open>int\<close> has 64 bits (the platforms the repository builds
  for): \<^verbatim>\<open>ParseInt(s, 10, 0)\<close>, an optional sign and then \<^verbatim>\<open>ParseUint(s, 10, 64)\<close>,
  the result within \<open>-2^63 .. 2^63 - 1\<close>. Its fast path for short strings computes
  the same result.
\<close>

definition Atoi :: "string \<Rightarrow> NumError + int" where
  "Atoi s =
     (if s = [] then Inl ErrSyntax
      else
        (let neg = (hd s = CHR ''-'');
             s1 = (if hd s = CHR ''+'' \<or> hd s = CHR ''-'' then tl s else s)
         in case ParseUint10 s1 64 of
              Inl e \<Rightarrow> Inl e
            | Inr un \<Rightarrow>
                if \<not> neg \<and> 2 ^ 63 \<le> un then Inl ErrRange
                else if neg \<and> 2 ^ 63 < un then Inl ErrRange
                else Inr (if neg then - int un else int un)))"

text \<open>\<^verbatim>\<open>strconv.Itoa\<close>: the decimal digits, after a minus sign for a negative number.\<close>

function digitsOf :: "nat \<Rightarrow> string" where
  "digitsOf n =
     (if n < 10 then [char_of (48 + n)]
      else digitsOf (n div 10) @ [char_of (48 + n mod 10)])"
  by pat_completeness auto
termination
  by (relation "measure (\<lambda>n. n)") auto

declare digitsOf.simps [simp del]

definition Itoa :: "int \<Rightarrow> string" where
  "Itoa i = (if i < 0 then CHR ''-'' # digitsOf (nat (- i)) else digitsOf (nat i))"















subsection \<open>Package net\<close>

datatype AddrError =
  MissingPort | TooManyColons | MissingCloseBracket | UnexpectedOpenBracket
  | UnexpectedCloseBracket

definition IndexByte :: "string \<Rightarrow> char \<Rightarrow> nat option" where
  "IndexByte s c = (if c \<in> set s then Some (length (takeWhile (\<lambda>x. x \<noteq> c) s)) else None)"

definition LastIndexByte :: "string \<Rightarrow> char \<Rightarrow> nat option" where
  "LastIndexByte s c =
     (if c \<in> set s then Some (length s - 1 - length (takeWhile (\<lambda>x. x \<noteq> c) (rev s)))
      else None)"

text \<open>
  \<^verbatim>\<open>net.SplitHostPort\<close>: the port starts after the last colon; a host in square
  brackets ends at the first \<^verbatim>\<open>]\<close>, which must stand right before that colon; no
  other bracket and, outside brackets, no other colon.
\<close>

definition SplitHostPort :: "string \<Rightarrow> AddrError + (string \<times> string)" where
  "SplitHostPort hostport =
     (case LastIndexByte hostport (CHR '':'') of
        None \<Rightarrow> Inl MissingPort
      | Some i \<Rightarrow>
          (let finish = (\<lambda>host j k.
                 if CHR ''['' \<in> set (drop j hostport) then Inl UnexpectedOpenBracket
                 else if CHR '']'' \<in> set (drop k hostport) then Inl UnexpectedCloseBracket
                 else Inr (host, drop (i + 1) hostport))
           in if hd hostport = CHR ''[''
              then
                (case IndexByte hostport (CHR '']'') of
                   None \<Rightarrow> Inl MissingCloseBracket
                 | Some e \<Rightarrow>
                     if e + 1 = length hostport then Inl MissingPort
                     else if e + 1 = i then finish (take (e - 1) (drop 1 hostport)) 1 (e + 1)
                     else if hostport ! (e + 1) = CHR '':'' then Inl TooManyColons
                     else Inl MissingPort)
              else
                (let host = take i hostport in
                 if CHR '':'' \<in> set host then Inl TooManyColons else finish host 0 0)))"

subsection \<open>Package regexp: the one expression of the file\<close>

text \<open>
  \<^verbatim>\<open>fileNameAndNumberRE = ^(\[[a-zA-Z0-9/-_.]+:[0-9]+])\s(.*)$\<close>.
  In the bracket expression, \<^verbatim>\<open>/-_\<close> is the range from \<^verbatim>\<open>/\<close> (47) to \<^verbatim>\<open>_\<close> (95):
  it holds the digits, the capital letters and \<^verbatim>\<open>: ; < = > ? @ [ \ ] ^\<close> too. The hyphen
  (45) and the white space are not in the class.
\<close>

definition fileNameClass :: "char \<Rightarrow> bool" where
  "fileNameClass c =
     (let b = byte c in
      (97 \<le> b \<and> b \<le> 122) \<or> (65 \<le> b \<and> b \<le> 90) \<or> (48 \<le> b \<and> b \<le> 57)
      \<or> (47 \<le> b \<and> b \<le> 95) \<or> b = 46)"

text \<open>\<^verbatim>\<open>\s\<close> is \<^verbatim>\<open>[\t\n\f\r ]\<close>.\<close>

definition isSpace :: "char \<Rightarrow> bool" where
  "isSpace c = (byte c = 9 \<or> byte c = 10 \<or> byte c = 12 \<or> byte c = 13 \<or> byte c = 32)"

text \<open>
  What may stand between the opening bracket and the white space:
  \<^verbatim>\<open>[class]+:[0-9]+]\<close>, that is a closing bracket last, before it the digits (one at
  least), before them a colon, and before the colon one character at least.
\<close>

definition fileAndLine :: "string \<Rightarrow> bool" where
  "fileAndLine seg =
     (seg \<noteq> [] \<and> last seg = CHR '']'' \<and>
      (let inner = butlast seg;
           digits = rev (takeWhile isDigit (rev inner));
           front = rev (dropWhile isDigit (rev inner))
       in digits \<noteq> [] \<and> front \<noteq> [] \<and> last front = CHR '':'' \<and> butlast front \<noteq> []))"

text \<open>
  The match of \<^verbatim>\<open>fileNameAndNumberRE\<close>, as its two groups. The white space is
  not in the class and every character of group 1 after the opening bracket is, so the
  white space is the first character past the bracket that is outside the class, and
  the match is the only one. The dot matches no line feed and \<^verbatim>\<open>$\<close> is the end of
  the text: group 2 holds no line feed.
\<close>

definition fileNameAndNumberRE :: "string \<Rightarrow> (string \<times> string) option" where
  "fileNameAndNumberRE s =
     (case s of
        [] \<Rightarrow> None
      | c # t \<Rightarrow>
          if c \<noteq> CHR ''['' then None
          else
            (case dropWhile fileNameClass t of
               [] \<Rightarrow> None
             | w # rest \<Rightarrow>
                 if isSpace w \<and> CHR 0x0A \<notin> set rest \<and> fileAndLine (takeWhile fileNameClass t)
                 then Some (c # takeWhile fileNameClass t, rest)
                 else None))"


section \<open>Errors, log levels and events\<close>

text \<open>The levels of zerolog.\<close>

datatype Level =
  DebugLevel | InfoLevel | WarnLevel | ErrorLevel | FatalLevel | PanicLevel | NoLevel
  | Disabled | TraceLevel

text \<open>
  The errors of the file: those it makes with \<^verbatim>\<open>fmt.Errorf\<close> around a cause, and the
  errors of the operating system and of the libraries, which it only passes on.
\<close>

datatype error =
  ExternalError string
  | StrconvError NumError
  | ErrCreatingWorkingDirectory error
  | ErrNoEnvoyBinaryFound error
  | ErrReadingEnvoyBinary error
  | ErrInvalidEnvoyBinary string string
  | ErrCreatingStderrPipe error
  | ErrStartingEnvoy error
  | ErrInvalidControlPlanePort error

text \<open>
  A child process as \<^verbatim>\<open>exec.Cmd\<close> holds it: the arguments (the program first), the
  working directory and, once started, the process.
\<close>

record Cmd =
  Args :: "string list"
  Dir :: string
  Process :: "nat option"

text \<open>
  What the code does to the world, in the order it does it: a log event (level, the
  error of \<^verbatim>\<open>Err\<close>, the string fields, the message), a call of
  \<^verbatim>\<open>atomic.WriteFile\<close> (directory, file name, content), a call of \<^verbatim>\<open>cmd.Start\<close>
  (with the process it gave in \<open>Process\<close>, or none where it failed), a call of
  \<^verbatim>\<open>Process.Release\<close> and a call of \<^verbatim>\<open>Process.Kill\<close> on a process.
\<close>

datatype event =
  Log Level "error option" "(string \<times> string) list" string
  | WriteFile string string string
  | Start Cmd
  | Release nat
  | Kill nat

section \<open>The log relay\<close>







section \<open>Configuration and server state\<close>

definition workingDirectoryName :: string where
  "workingDirectoryName = ''.pomerium-envoy''"

definition configFileName :: string where
  "configFileName = ''envoy-config.yaml''"

text \<open>
  Modelled from the spec: \<^verbatim>\<open>trace.TracingOptions\<close>, declared in the tracing package
  of the repository. The tracing configuration, by the two fields the file reads: the
  tracing backend and the address of its collector.
\<close>

record TracingOptions =
  Provider :: string
  DatadogAddress :: string

record serverOptions =
  services :: string
  logLevel :: string
  tracingOptions :: TracingOptions

text \<open>
  Modelled from the spec: \<^verbatim>\<open>config.Options\<close> and \<^verbatim>\<open>config.Config\<close>, declared in
  the configuration package of the repository. The application configuration, by the
  fields the file reads; the fields it leaves to \<^verbatim>\<open>config.NewTracingOptions\<close> are
  the extension of the record.
\<close>

record Options =
  Services :: string
  ProxyLogLevel :: string
  LogLevel :: string
  EnvoyAdminAddress :: string
  EnvoyAdminAccessLogPath :: string
  EnvoyAdminProfilePath :: string

record 'a Config =
  Options :: "'a Options_scheme"

text \<open>\<^verbatim>\<open>Server\<close>, without its mutex: the model runs one method at a time.\<close>

record Server =
  wd :: string
  cmd :: "Cmd option"
  grpcPort :: string
  httpPort :: string
  envoyPath :: string
  restartEpoch :: int
  options :: serverOptions

section \<open>The bootstrap message\<close>

record SocketAddress =
  Address :: string
  PortValue :: "32 word"

datatype Address = Address_SocketAddress SocketAddress | Address_Pipe string

datatype ApiType = DELTA_GRPC

datatype ApiVersion = V3

datatype ConfigSourceSpecifier = ConfigSource_Ads

datatype DiscoveryType = STATIC

datatype LbPolicy = ROUND_ROBIN

record Node =
  Id :: string
  NodeCluster :: string

record Admin =
  AccessLogPath :: string
  ProfilePath :: string
  AdminAddress :: Address

text \<open>\<open>GrpcServices\<close>: the cluster name of each \<^verbatim>\<open>EnvoyGrpc\<close> target.\<close>

record ApiConfigSource =
  ApiType :: ApiType
  TransportApiVersion :: ApiVersion
  GrpcServices :: "string list"

record ConfigSource =
  ResourceApiVersion :: ApiVersion
  ConfigSourceSpecifier :: ConfigSourceSpecifier

record DynamicResources =
  AdsConfig :: ApiConfigSource
  LdsConfig :: ConfigSource
  CdsConfig :: ConfigSource

text \<open>
  \<open>Endpoints\<close>: for each \<^verbatim>\<open>LocalityLbEndpoints\<close> the socket address of each of its
  \<^verbatim>\<open>LbEndpoint\<close>s.
\<close>

record ClusterLoadAssignment =
  ClusterName :: string
  Endpoints :: "SocketAddress list list"

text \<open>\<open>ConnectTimeout\<close> in seconds; \<open>Http2ProtocolOptions\<close>: whether the field is set.\<close>

record Cluster =
  Name :: string
  ConnectTimeout :: int
  ClusterDiscoveryType :: DiscoveryType
  LbPolicy :: LbPolicy
  LoadAssignment :: ClusterLoadAssignment
  Http2ProtocolOptions :: bool

record StaticResources =
  Clusters :: "Cluster list"

record TagSpecifier =
  TagName :: string
  FixedValue :: string

record StatsConfig =
  StatsTags :: "TagSpecifier list"

record Bootstrap =
  Node :: Node
  Admin :: Admin
  DynamicResources :: DynamicResources
  StaticResources :: StaticResources
  StatsConfig :: StatsConfig

section \<open>What the file takes from elsewhere\<close>

text \<open>
  Constants and functions that the file takes from other files of its package, from
  other packages of the repository and from libraries; the model takes them as
  parameters: the \<^verbatim>\<open>Checksum\<close> of the build, \<^verbatim>\<open>baseIDPath\<close>,
  \<^verbatim>\<open>trace.DatadogTracingProviderName\<close>, \<^verbatim>\<open>config.NewTracingOptions\<close>,
  \<^verbatim>\<open>firstNonEmpty\<close>, \<^verbatim>\<open>ParseAddress\<close>, \<^verbatim>\<open>telemetry.ServiceName\<close>,
  \<^verbatim>\<open>protojson.Marshal\<close> of the bootstrap message, \<^verbatim>\<open>filepath.Join\<close> of two
  elements, and the hexadecimal SHA-256 digest
  (\<^verbatim>\<open>hex.EncodeToString\<close> of \<^verbatim>\<open>sha256\<close>).
\<close>

record 'a ext =
  Checksum :: string
  baseIDPath :: string
  DatadogTracingProviderName :: string
  NewTracingOptions :: "'a Options_scheme \<Rightarrow> error + TracingOptions"
  firstNonEmpty :: "string list \<Rightarrow> string"
  ParseAddress :: "string \<Rightarrow> error + Address"
  ServiceName :: "string \<Rightarrow> string"
  Marshal :: "Bootstrap \<Rightarrow> error + string"
  Join :: "string \<Rightarrow> string \<Rightarrow> string"
  sha256hex :: "string \<Rightarrow> string"

text \<open>
  What the operating system answers during one call of \<^verbatim>\<open>NewServer\<close>,
  \<^verbatim>\<open>update\<close> or \<^verbatim>\<open>Close\<close>; each of these calls asks each question once at most.
  \<open>readBaseID\<close> is the repository's function of that name (the persisted base id, if
  there is one), \<open>cmdStart\<close> the process id that \<^verbatim>\<open>cmd.Start\<close> gives or its error.
\<close>

record os =
  TempDir :: string
  MkdirAll :: "error option"
  extractEmbeddedEnvoy :: "error + string"
  LookPath :: "string \<Rightarrow> error + string"
  ReadFile :: "string \<Rightarrow> error + string"
  atomicWriteFile :: "error option"
  readBaseID :: "int option"
  StderrPipe :: "error option"
  StdoutPipe :: "error option"
  cmdStart :: "error + nat"
  processRelease :: "error option"
  processKill :: "error option"

text \<open>\<^verbatim>\<open>buildStatsConfig\<close>\<close>

definition buildStatsConfig :: "'a ext \<Rightarrow> Server \<Rightarrow> StatsConfig" where
  "buildStatsConfig x srv =
     \<lparr>StatsTags = [\<lparr>TagName = ''service'', FixedValue = ServiceName x (services (options srv))\<rparr>]\<rparr>"

text \<open>The address of the Datadog collector: the default, and what the override changes.\<close>

definition datadogAddr :: "string \<Rightarrow> SocketAddress" where
  "datadogAddr override =
     (let addr = \<lparr>Address = ''127.0.0.1'', PortValue = 8126\<rparr> in
      if override \<noteq> [] then
        (case SplitHostPort override of
           Inl e \<Rightarrow> addr
         | Inr (a, p) \<Rightarrow>
             (let addr1 = addr\<lparr>Address := a\<rparr> in
              case ParseUint10 p 32 of
                Inl e \<Rightarrow> addr1
              | Inr pv \<Rightarrow> addr1\<lparr>PortValue := word_of_nat pv\<rparr>))
      else addr)"

definition staticCluster :: "string \<Rightarrow> SocketAddress \<Rightarrow> bool \<Rightarrow> Cluster" where
  "staticCluster nm addr http2 =
     \<lparr>Name = nm, ConnectTimeout = 5, ClusterDiscoveryType = STATIC, LbPolicy = ROUND_ROBIN,
      LoadAssignment = \<lparr>ClusterName = nm, Endpoints = [[addr]]\<rparr>,
      Http2ProtocolOptions = http2\<rparr>"

text \<open>
  The message \<^verbatim>\<open>bcfg\<close> that \<^verbatim>\<open>buildBootstrapConfig\<close> builds, or the error it
  returns before it has one. \<^verbatim>\<open>uint32(controlPlanePort)\<close> keeps the low 32 bits.
\<close>

definition bootstrapMessage :: "'a ext \<Rightarrow> Server \<Rightarrow> 'a Config \<Rightarrow> error + Bootstrap" where
  "bootstrapMessage x srv cfg =
     (let nodeCfg = \<lparr>Id = ''proxy'', NodeCluster = ''proxy''\<rparr> in
      case ParseAddress x (EnvoyAdminAddress (Options cfg)) of
        Inl err \<Rightarrow> Inl err
      | Inr adminAddr \<Rightarrow>
          (let adminCfg = \<lparr>AccessLogPath = EnvoyAdminAccessLogPath (Options cfg),
                           ProfilePath = EnvoyAdminProfilePath (Options cfg),
                           AdminAddress = adminAddr\<rparr>;
               dynamicCfg =
                 \<lparr>AdsConfig = \<lparr>ApiType = DELTA_GRPC, TransportApiVersion = V3,
                                GrpcServices = [''pomerium-control-plane-grpc'']\<rparr>,
                  LdsConfig = \<lparr>ResourceApiVersion = V3, ConfigSourceSpecifier = ConfigSource_Ads\<rparr>,
                  CdsConfig = \<lparr>ResourceApiVersion = V3, ConfigSourceSpecifier = ConfigSource_Ads\<rparr>\<rparr>
           in case Atoi (grpcPort srv) of
                Inl err \<Rightarrow> Inl (ErrInvalidControlPlanePort (StrconvError err))
              | Inr controlPlanePort \<Rightarrow>
                  (let controlPlaneEndpoint =
                         \<lparr>Address = ''127.0.0.1'', PortValue = word_of_int controlPlanePort\<rparr>;
                       controlPlaneCluster =
                         staticCluster ''pomerium-control-plane-grpc'' controlPlaneEndpoint True;
                       clusters =
                         (if Provider (tracingOptions (options srv)) = DatadogTracingProviderName x
                          then [controlPlaneCluster,
                                staticCluster ''datadog-apm''
                                  (datadogAddr (DatadogAddress (tracingOptions (options srv))))
                                  False]
                          else [controlPlaneCluster])
                   in Inr \<lparr>Node = nodeCfg, Admin = adminCfg, DynamicResources = dynamicCfg,
                           StaticResources = \<lparr>Clusters = clusters\<rparr>,
                           StatsConfig = buildStatsConfig x srv\<rparr>)))"

text \<open>\<^verbatim>\<open>buildBootstrapConfig\<close>: the message as JSON.\<close>

definition buildBootstrapConfig :: "'a ext \<Rightarrow> Server \<Rightarrow> 'a Config \<Rightarrow> error + string" where
  "buildBootstrapConfig x srv cfg =
     (case bootstrapMessage x srv cfg of
        Inl err \<Rightarrow> Inl err
      | Inr bcfg \<Rightarrow> Marshal x bcfg)"

section \<open>The supervisor\<close>

text \<open>
  Every method returns what the Go method returns, the server as the method leaves it,
  and the events of the call in their order. The goroutines a method starts
  (\<^verbatim>\<open>handleLogs\<close> on the two pipes, \<^verbatim>\<open>runProcessCollector\<close>) are not part of it.
\<close>

text \<open>
  \<^verbatim>\<open>writeConfig\<close>: the file is \<^verbatim>\<open>configFileName\<close> in the working directory; the
  debug line is logged before the write.
\<close>

definition writeConfig :: "'a ext \<Rightarrow> os \<Rightarrow> Server \<Rightarrow> 'a Config \<Rightarrow> error option \<times> event list" where
  "writeConfig x os srv cfg =
     (case buildBootstrapConfig x srv cfg of
        Inl err \<Rightarrow> (Some err, [])
      | Inr confBytes \<Rightarrow>
          (atomicWriteFile os,
           [Log DebugLevel None
              [(''service'', ''envoy''), (''location'', Join x (wd srv) configFileName)]
              ''wrote config file to location'',
            WriteFile (wd srv) configFileName confBytes]))"

text \<open>The arguments of the child, and the restart epoch after they are made.\<close>

definition runArgs :: "'a ext \<Rightarrow> os \<Rightarrow> Server \<Rightarrow> string list \<times> int" where
  "runArgs x os srv =
     (let args = [''-c'', configFileName,
                  ''--log-level'', logLevel (options srv),
                  ''--log-format'', ''[LOG_FORMAT]%l--%n--%v'',
                  ''--log-format-escaped'']
      in case readBaseID os of
           Some baseID \<Rightarrow>
             (args @ [''--base-id'', Itoa baseID, ''--restart-epoch'', Itoa (restartEpoch srv)],
              restartEpoch srv + 1)
         | None \<Rightarrow>
             (args @ [''--use-dynamic-base-id'', ''--base-id-path'', baseIDPath x],
              restartEpoch srv))"

text \<open>
  The end of \<^verbatim>\<open>run\<close>: the release of the previous process, if the server holds a
  command with a process. A failing release is only logged.
\<close>

definition releasePrevious :: "os \<Rightarrow> Server \<Rightarrow> event list" where
  "releasePrevious os srv =
     (case cmd srv of
        None \<Rightarrow> []
      | Some old \<Rightarrow>
          (case Process old of
             None \<Rightarrow> []
           | Some p \<Rightarrow>
               [Log InfoLevel None [] ''envoy: releasing envoy process for hot-reload'',
                Release p]
               @ (case processRelease os of
                    None \<Rightarrow> []
                  | Some err \<Rightarrow>
                      [Log WarnLevel (Some err) [(''service'', ''envoy'')]
                         ''envoy: failed to release envoy process for hot-reload''])))"

text \<open>
  \<^verbatim>\<open>run\<close>. \<^verbatim>\<open>exec.Command\<close> puts the program before the arguments. Both pipes
  fail with the same message. The restart epoch is counted up before anything can
  fail; the previous process is released after \<^verbatim>\<open>cmd.Start\<close> has returned without
  an error.
\<close>

definition run :: "'a ext \<Rightarrow> os \<Rightarrow> Server \<Rightarrow> error option \<times> Server \<times> event list" where
  "run x os srv =
     (let (args, epoch) = runArgs x os srv;
          srv1 = srv\<lparr>restartEpoch := epoch\<rparr>;
          c = \<lparr>Args = envoyPath srv # args, Dir = wd srv, Process = None\<rparr>
      in case StderrPipe os of
           Some err \<Rightarrow> (Some (ErrCreatingStderrPipe err), srv1, [])
         | None \<Rightarrow>
             (case StdoutPipe os of
                Some err \<Rightarrow> (Some (ErrCreatingStderrPipe err), srv1, [])
              | None \<Rightarrow>
                  (case cmdStart os of
                     Inl err \<Rightarrow> (Some (ErrStartingEnvoy err), srv1, [Start c])
                   | Inr pid \<Rightarrow>
                       (let c1 = c\<lparr>Process := Some pid\<rparr>
                        in (None, srv1\<lparr>cmd := Some c1\<rparr>,
                            Start c1 # releasePrevious os srv1)))))"

text \<open>
  The first lines of \<^verbatim>\<open>update\<close>: the options of the server that a configuration
  asks for, or the error of its tracing options.
\<close>

definition projectOptions :: "'a ext \<Rightarrow> 'a Config \<Rightarrow> error + serverOptions" where
  "projectOptions x cfg =
     (case NewTracingOptions x (Options cfg) of
        Inl err \<Rightarrow> Inl err
      | Inr tracing \<Rightarrow>
          Inr \<lparr>services = Services (Options cfg),
               logLevel = firstNonEmpty x [ProxyLogLevel (Options cfg),
                                           LogLevel (Options cfg), ''debug''],
               tracingOptions = tracing\<rparr>)"

text \<open>\<^verbatim>\<open>update\<close>, the change handler. It returns nothing: the server and the events.\<close>

definition update :: "'a ext \<Rightarrow> os \<Rightarrow> 'a Config \<Rightarrow> Server \<Rightarrow> Server \<times> event list" where
  "update x os cfg srv =
     (case projectOptions x cfg of
        Inl err \<Rightarrow>
          (srv, [Log ErrorLevel (Some err) [(''service'', ''envoy'')] ''invalid tracing config''])
      | Inr opts \<Rightarrow>
          if options srv = opts
          then (srv, [Log DebugLevel None [(''service'', ''envoy'')]
                        ''envoy: no config changes detected''])
          else
            (let srv1 = srv\<lparr>options := opts\<rparr> in
             case writeConfig x os srv1 cfg of
               (Some err, evs) \<Rightarrow>
                 (srv1, evs @ [Log ErrorLevel (Some err) [(''service'', ''envoy'')]
                                 ''envoy: failed to write envoy config''])
             | (None, evs) \<Rightarrow>
                 (case run x os srv1 of
                    (Some err, srv2, evs2) \<Rightarrow>
                      (srv2, evs @ [Log InfoLevel None [] ''envoy: starting envoy process'']
                             @ evs2
                             @ [Log ErrorLevel (Some err) [(''service'', ''envoy'')]
                                  ''envoy: failed to run envoy process''])
                  | (None, srv2, evs2) \<Rightarrow>
                      (srv2, evs @ [Log InfoLevel None [] ''envoy: starting envoy process'']
                             @ evs2))))"

definition onConfigChange :: "'a ext \<Rightarrow> os \<Rightarrow> 'a Config \<Rightarrow> Server \<Rightarrow> Server \<times> event list" where
  "onConfigChange x os cfg srv = update x os cfg srv"

text \<open>\<^verbatim>\<open>Close\<close>: the handle is cleared whether the kill fails or not.\<close>

definition Close :: "os \<Rightarrow> Server \<Rightarrow> error option \<times> Server \<times> event list" where
  "Close os srv =
     (case cmd srv of
        None \<Rightarrow> (None, srv, [])
      | Some c \<Rightarrow>
          (case Process c of
             None \<Rightarrow> (None, srv, [])
           | Some p \<Rightarrow>
               (processKill os, srv\<lparr>cmd := None\<rparr>,
                Kill p #
                (case processKill os of
                   None \<Rightarrow> []
                 | Some err \<Rightarrow>
                     [Log ErrorLevel (Some err) [(''service'', ''envoy'')]
                        ''envoy: failed to kill process on close'']))))"

text \<open>
  \<^verbatim>\<open>NewServer\<close>; \<open>cfg\<close> is what \<^verbatim>\<open>src.GetConfig()\<close> returns. The callback it
  registers is \<open>onConfigChange\<close>, which the configuration source calls later.
\<close>

definition NewServer ::
  "'a ext \<Rightarrow> os \<Rightarrow> 'a Config \<Rightarrow> string \<Rightarrow> string \<Rightarrow> (error + Server) \<times> event list" where
  "NewServer x os cfg grpc http =
     (case MkdirAll os of
        Some err \<Rightarrow> (Inl (ErrCreatingWorkingDirectory err), [])
      | None \<Rightarrow>
          (let (path, evs0) =
                 (case extractEmbeddedEnvoy os of
                    Inl err \<Rightarrow> (''envoy'', [Log WarnLevel (Some err) [] []])
                  | Inr p \<Rightarrow> (p, []))
           in case LookPath os path of
                Inl err \<Rightarrow> (Inl (ErrNoEnvoyBinaryFound err), evs0)
              | Inr fullEnvoyPath \<Rightarrow>
                  (let verified =
                         (if Checksum x \<noteq> [] then
                            (case ReadFile os fullEnvoyPath of
                               Inl err \<Rightarrow> Inl (ErrReadingEnvoyBinary err)
                             | Inr bs \<Rightarrow>
                                 (let s = sha256hex x bs in
                                  if Checksum x \<noteq> s
                                  then Inl (ErrInvalidEnvoyBinary (Checksum x) s)
                                  else Inr []))
                          else Inr [Log InfoLevel None []
                                      ''no checksum defined, envoy binary will not be verified!''])
                   in case verified of
                        Inl err \<Rightarrow> (Inl err, evs0)
                      | Inr evs1 \<Rightarrow>
                          (let srv = \<lparr>wd = Join x (TempDir os) workingDirectoryName,
                                      cmd = None, grpcPort = grpc, httpPort = http,
                                      envoyPath = path, restartEpoch = 0,
                                      options = \<lparr>services = [], logLevel = [],
                                                  tracingOptions =
                                                    \<lparr>Provider = [], DatadogAddress = []\<rparr>\<rparr>\<rparr>;
                               (srv1, evs2) = onConfigChange x os cfg srv
                           in (Inr srv1,
                               evs0 @ evs1 @ evs2
                               @ [Log InfoLevel None
                                    [(''path'', path), (''checksum'', Checksum x)]
                                    ''running envoy''])))))"

subsection \<open>A lifetime of a server\<close>

text \<open>
  The calls a server receives after \<^verbatim>\<open>NewServer\<close>: a change of configuration, with
  what the operating system answers during it, or \<^verbatim>\<open>Close\<close>.
\<close>

datatype 'a call = ConfigChange os "'a Config" | CloseCall os

fun lifetime :: "'a ext \<Rightarrow> 'a call list \<Rightarrow> Server \<Rightarrow> Server \<times> event list" where
  "lifetime x [] srv = (srv, [])"
| "lifetime x (ConfigChange os cfg # calls) srv =
     (let (srv1, evs) = onConfigChange x os cfg srv;
          (srv2, evs') = lifetime x calls srv1
      in (srv2, evs @ evs'))"
| "lifetime x (CloseCall os # calls) srv =
     (let (err, srv1, evs) = Close os srv;
          (srv2, evs') = lifetime x calls srv1
      in (srv2, evs @ evs'))"

text \<open>
  Successive calls of \<^verbatim>\<open>run\<close> on one server, one answer of the operating system for
  each: the result and the events of every call.
\<close>

fun runs :: "'a ext \<Rightarrow> os list \<Rightarrow> Server \<Rightarrow> (error option \<times> event list) list" where
  "runs x [] srv = []"
| "runs x (os # oss) srv =
     (case run x os srv of (err, srv1, evs) \<Rightarrow> (err, evs) # runs x oss srv1)"

text \<open>The events that are a start which gave a process, and those that are a log at \<open>ErrorLevel\<close>.\<close>

fun started :: "event \<Rightarrow> bool" where
  "started (Start c) = (Process c \<noteq> None)"
| "started ev = False"

fun isErrorLog :: "event \<Rightarrow> bool" where
  "isErrorLog (Log lvl err fs msg) = (lvl = ErrorLevel)"
| "isErrorLog ev = False"

fun isStart :: "event \<Rightarrow> bool" where
  "isStart (Start c) = True"
| "isStart ev = False"

fun isRelease :: "event \<Rightarrow> bool" where
  "isRelease (Release p) = True"
| "isRelease ev = False"

fun isKill :: "event \<Rightarrow> bool" where
  "isKill (Kill p) = True"
| "isKill ev = False"

fun isWriteFile :: "event \<Rightarrow> bool" where
  "isWriteFile (WriteFile d f b) = True"
| "isWriteFile ev = False"

section \<open>A concrete setting\<close>

text \<open>
  One choice of what the file takes from elsewhere, a configuration, the answers of an
  operating system where every call succeeds, and the server as \<^verbatim>\<open>NewServer\<close> makes
  it before the first \<^verbatim>\<open>onConfigChange\<close>. Here the tracing fields of the
  configuration are the tracing options themselves, and the provider \<^verbatim>\<open>bogus\<close> is
  refused.
\<close>

definition exampleExt :: "TracingOptions ext" where
  "exampleExt =
     \<lparr>Checksum = [],
      baseIDPath = ''/tmp/.pomerium-envoy/envoy-base-id'',
      DatadogTracingProviderName = ''datadog'',
      NewTracingOptions =
        (\<lambda>opts. if Provider (Options.more opts) = ''bogus''
                then Inl (ExternalError ''unsupported tracing provider'')
                else Inr (Options.more opts)),
      firstNonEmpty = (\<lambda>args. case filter (\<lambda>a. a \<noteq> []) args of [] \<Rightarrow> [] | a # r \<Rightarrow> a),
      ParseAddress =
        (\<lambda>raw. if raw = [] then Inl (ExternalError ''empty address'')
               else Inr (Address_SocketAddress \<lparr>Address = ''127.0.0.1'', PortValue = 9901\<rparr>)),
      ServiceName = (\<lambda>svc. svc),
      Marshal = (\<lambda>bcfg. Inr ''{}''),
      Join = (\<lambda>dir file. dir @ ''/'' @ file),
      sha256hex = (\<lambda>bs. ''cd'')\<rparr>"

definition exampleConfig :: "string \<Rightarrow> string \<Rightarrow> TracingOptions Config" where
  "exampleConfig svc provider =
     \<lparr>Options =
        \<lparr>Services = svc, ProxyLogLevel = [], LogLevel = ''info'',
         EnvoyAdminAddress = ''127.0.0.1:9901'',
         EnvoyAdminAccessLogPath = ''/tmp/admin_access.log'',
         EnvoyAdminProfilePath = ''/tmp/envoy.prof'',
         \<dots> = \<lparr>Provider = provider, DatadogAddress = []\<rparr>\<rparr>\<rparr>"

definition exampleOs :: os where
  "exampleOs =
     \<lparr>TempDir = ''/tmp'', MkdirAll = None, extractEmbeddedEnvoy = Inr ''/tmp/envoy'',
      LookPath = (\<lambda>file. Inr file), ReadFile = (\<lambda>file. Inr ''ELF''),
      atomicWriteFile = None, readBaseID = Some 7, StderrPipe = None, StdoutPipe = None,
      cmdStart = Inr 42, processRelease = None, processKill = None\<rparr>"

definition exampleServer :: Server where
  "exampleServer =
     \<lparr>wd = ''/tmp/.pomerium-envoy'', cmd = None, grpcPort = ''5443'', httpPort = ''8080'',
      envoyPath = ''/tmp/envoy'', restartEpoch = 0,
      options = \<lparr>services = [], logLevel = [],
                  tracingOptions = \<lparr>Provider = [], DatadogAddress = []\<rparr>\<rparr>\<rparr>"



chapter \<open>Properties\<close>

section \<open>The restart transition\<close>

lemma releasePrevious_restartEpoch:
  "releasePrevious os (srv\<lparr>restartEpoch := e\<rparr>) = releasePrevious os srv"
  by (simp add: releasePrevious_def)

lemma releasePrevious_options:
  "releasePrevious os (srv\<lparr>options := opts\<rparr>) = releasePrevious os srv"
  by (simp add: releasePrevious_def)

lemma Release_in_releasePrevious:
  "Release p \<in> set (releasePrevious os srv) \<Longrightarrow> \<exists>old. cmd srv = Some old \<and> Process old = Some p"
  by (cases "cmd srv"; cases "Process (the (cmd srv))")
     (auto simp: releasePrevious_def split: option.splits)

lemma releasePrevious_no_Start:
  "ev \<in> set (releasePrevious os srv) \<Longrightarrow> \<not> isStart ev \<and> \<not> isKill ev \<and> \<not> isWriteFile ev \<and> \<not> isErrorLog ev"
  by (auto simp: releasePrevious_def split: option.splits)

lemma run_pipe_fails:
  "StderrPipe os = Some err \<or> (StderrPipe os = None \<and> StdoutPipe os = Some err) \<Longrightarrow>
   run x os srv =
     (Some (ErrCreatingStderrPipe err), srv\<lparr>restartEpoch := snd (runArgs x os srv)\<rparr>, [])"
  by (auto simp: run_def split_beta Let_def)

lemma run_Start_fails:
  "StderrPipe os = None \<Longrightarrow> StdoutPipe os = None \<Longrightarrow> cmdStart os = Inl err \<Longrightarrow>
   run x os srv =
     (Some (ErrStartingEnvoy err), srv\<lparr>restartEpoch := snd (runArgs x os srv)\<rparr>,
      [Start \<lparr>Args = envoyPath srv # fst (runArgs x os srv), Dir = wd srv, Process = None\<rparr>])"
  by (simp add: run_def split_beta Let_def)

lemma run_Start_succeeds:
  "StderrPipe os = None \<Longrightarrow> StdoutPipe os = None \<Longrightarrow> cmdStart os = Inr pid \<Longrightarrow>
   run x os srv =
     (None,
      srv\<lparr>restartEpoch := snd (runArgs x os srv),
          cmd := Some \<lparr>Args = envoyPath srv # fst (runArgs x os srv), Dir = wd srv,
                       Process = Some pid\<rparr>\<rparr>,
      Start \<lparr>Args = envoyPath srv # fst (runArgs x os srv), Dir = wd srv, Process = Some pid\<rparr>
      # releasePrevious os srv)"
  by (simp add: run_def split_beta Let_def releasePrevious_restartEpoch)

lemma run_cases:
  obtains
    (pipe) err where
      "StderrPipe os = Some err \<or> (StderrPipe os = None \<and> StdoutPipe os = Some err)"
      "run x os srv =
         (Some (ErrCreatingStderrPipe err), srv\<lparr>restartEpoch := snd (runArgs x os srv)\<rparr>, [])"
  | (start) err where
      "StderrPipe os = None" "StdoutPipe os = None" "cmdStart os = Inl err"
      "run x os srv =
         (Some (ErrStartingEnvoy err), srv\<lparr>restartEpoch := snd (runArgs x os srv)\<rparr>,
          [Start \<lparr>Args = envoyPath srv # fst (runArgs x os srv), Dir = wd srv, Process = None\<rparr>])"
  | (ok) pid where
      "StderrPipe os = None" "StdoutPipe os = None" "cmdStart os = Inr pid"
      "run x os srv =
         (None,
          srv\<lparr>restartEpoch := snd (runArgs x os srv),
              cmd := Some \<lparr>Args = envoyPath srv # fst (runArgs x os srv), Dir = wd srv,
                           Process = Some pid\<rparr>\<rparr>,
          Start \<lparr>Args = envoyPath srv # fst (runArgs x os srv), Dir = wd srv,
                  Process = Some pid\<rparr>
          # releasePrevious os srv)"
proof (cases "StderrPipe os")
  case (Some err)
  then show ?thesis using pipe run_pipe_fails by blast
next
  case None
  note e = this
  show ?thesis
  proof (cases "StdoutPipe os")
    case (Some err)
    with e show ?thesis using pipe run_pipe_fails by blast
  next
    case None
    note o = this
    show ?thesis
    proof (cases "cmdStart os")
      case (Inl err)
      with e o show ?thesis using start run_Start_fails by blast
    next
      case (Inr pid)
      with e o show ?thesis using ok run_Start_succeeds by blast
    qed
  qed
qed

text \<open>
  C1. In \<^verbatim>\<open>run\<close>, a release of a process stands in the events only after a
  \<^verbatim>\<open>cmd.Start\<close> that gave a process, the call then returns no error, and the
  process released is the one of the command the server held. Where
  \<^verbatim>\<open>cmd.Start\<close> fails, \<^verbatim>\<open>run\<close> returns an error; and whenever it returns an
  error, nothing is released and the command of the server is the one it held.
\<close>

theorem run_releases_after_start:
  assumes r: "run x os srv = (res, srv', evs)"
  shows "(\<forall>pre p post. evs = pre @ Release p # post \<longrightarrow>
            res = None
            \<and> (\<exists>c. Start c \<in> set pre \<and> Process c \<noteq> None)
            \<and> (\<exists>old. cmd srv = Some old \<and> Process old = Some p))
         \<and> ((\<exists>err. cmdStart os = Inl err) \<longrightarrow> res \<noteq> None)
         \<and> (res \<noteq> None \<longrightarrow> (\<forall>p. Release p \<notin> set evs) \<and> cmd srv' = cmd srv)"
proof (cases rule: run_cases [of os x srv])
  case (pipe err)
  with r show ?thesis by auto
next
  case (start err)
  with r show ?thesis by (auto simp: append_eq_Cons_conv Cons_eq_append_conv)
next
  case (ok pid)
  let ?c = "\<lparr>Args = envoyPath srv # fst (runArgs x os srv), Dir = wd srv, Process = Some pid\<rparr>"
  from ok r have res: "res = None" and evs: "evs = Start ?c # releasePrevious os srv" by simp_all
  have "res = None \<and> (\<exists>c. Start c \<in> set pre \<and> Process c \<noteq> None)
        \<and> (\<exists>old. cmd srv = Some old \<and> Process old = Some p)"
    if s: "evs = pre @ Release p # post" for pre p post
  proof -
    from s evs obtain pre' where pre: "pre = Start ?c # pre'"
      and rest: "releasePrevious os srv = pre' @ Release p # post"
      by (cases pre) auto
    from rest have "Release p \<in> set (releasePrevious os srv)" by simp
    then have "\<exists>old. cmd srv = Some old \<and> Process old = Some p"
      by (rule Release_in_releasePrevious)
    moreover have "Start ?c \<in> set pre \<and> Process ?c \<noteq> None" using pre by simp
    ultimately show ?thesis using res by blast
  qed
  with res ok show ?thesis by auto
qed

text \<open>
  A server that holds process 41: a start that succeeds releases 41 after it; a start
  that fails returns the error, releases nothing and leaves the command in place.
\<close>

theorem run_releases_after_start_witness:
  "snd (snd (run exampleExt exampleOs
               (exampleServer\<lparr>cmd := Some \<lparr>Args = [''/tmp/envoy''], Dir = ''/tmp'', Process = Some 41\<rparr>\<rparr>))) =
     [Start \<lparr>Args = [''/tmp/envoy'', ''-c'', ''envoy-config.yaml'', ''--log-level'', [],
                     ''--log-format'', ''[LOG_FORMAT]%l--%n--%v'', ''--log-format-escaped'',
                     ''--base-id'', ''7'', ''--restart-epoch'', ''0''],
             Dir = ''/tmp/.pomerium-envoy'', Process = Some 42\<rparr>,
      Log InfoLevel None [] ''envoy: releasing envoy process for hot-reload'',
      Release 41]
   \<and> fst (run exampleExt (exampleOs\<lparr>cmdStart := Inl (ExternalError ''exec format error'')\<rparr>)
            (exampleServer\<lparr>cmd := Some \<lparr>Args = [''/tmp/envoy''], Dir = ''/tmp'', Process = Some 41\<rparr>\<rparr>))
       = Some (ErrStartingEnvoy (ExternalError ''exec format error''))
   \<and> Release 41 \<notin> set (snd (snd (run exampleExt (exampleOs\<lparr>cmdStart := Inl (ExternalError ''exec format error'')\<rparr>)
            (exampleServer\<lparr>cmd := Some \<lparr>Args = [''/tmp/envoy''], Dir = ''/tmp'', Process = Some 41\<rparr>\<rparr>))))
   \<and> cmd (fst (snd (run exampleExt (exampleOs\<lparr>cmdStart := Inl (ExternalError ''exec format error'')\<rparr>)
            (exampleServer\<lparr>cmd := Some \<lparr>Args = [''/tmp/envoy''], Dir = ''/tmp'', Process = Some 41\<rparr>\<rparr>))))
       = Some \<lparr>Args = [''/tmp/envoy''], Dir = ''/tmp'', Process = Some 41\<rparr>"
proof -
  let ?srv = "exampleServer\<lparr>cmd := Some \<lparr>Args = [''/tmp/envoy''], Dir = ''/tmp'', Process = Some 41\<rparr>\<rparr>"
  let ?os = "exampleOs\<lparr>cmdStart := Inl (ExternalError ''exec format error'')\<rparr>"
  have a: "run exampleExt exampleOs ?srv =
      (fst (run exampleExt exampleOs ?srv), fst (snd (run exampleExt exampleOs ?srv)),
       snd (snd (run exampleExt exampleOs ?srv)))" by simp
  have b: "run exampleExt ?os ?srv =
      (fst (run exampleExt ?os ?srv), fst (snd (run exampleExt ?os ?srv)),
       snd (snd (run exampleExt ?os ?srv)))" by simp
  have ev: "snd (snd (run exampleExt exampleOs ?srv)) =
     [Start \<lparr>Args = [''/tmp/envoy'', ''-c'', ''envoy-config.yaml'', ''--log-level'', [],
                     ''--log-format'', ''[LOG_FORMAT]%l--%n--%v'', ''--log-format-escaped'',
                     ''--base-id'', ''7'', ''--restart-epoch'', ''0''],
             Dir = ''/tmp/.pomerium-envoy'', Process = Some 42\<rparr>,
      Log InfoLevel None [] ''envoy: releasing envoy process for hot-reload'',
      Release 41]"
    by code_simp
  have st: "cmdStart ?os = Inl (ExternalError ''exec format error'')" by simp
  have fl: "fst (run exampleExt ?os ?srv) = Some (ErrStartingEnvoy (ExternalError ''exec format error''))"
    by code_simp
  from run_releases_after_start [OF b] st fl ev show ?thesis
    by (simp add: exampleServer_def)
qed

section \<open>The change handler\<close>


lemma run_options:
  "options (fst (snd (run x os srv))) = options srv"
  by (cases rule: run_cases [of os x srv]) simp_all

lemma writeConfig_events:
  "writeConfig x os srv cfg = (res, evs) \<Longrightarrow> ev \<in> set evs \<Longrightarrow>
   \<not> isStart ev \<and> \<not> isRelease ev \<and> \<not> isKill ev \<and> \<not> isErrorLog ev"
  by (auto simp: writeConfig_def split: sum.splits)

lemma update_cases:
  obtains
    (tracing) err where
      "projectOptions x cfg = Inl err"
      "update x os cfg srv =
         (srv, [Log ErrorLevel (Some err) [(''service'', ''envoy'')] ''invalid tracing config''])"
  | (same) opts where
      "projectOptions x cfg = Inr opts" "options srv = opts"
      "update x os cfg srv =
         (srv, [Log DebugLevel None [(''service'', ''envoy'')]
                  ''envoy: no config changes detected''])"
  | (write_fails) opts err evs where
      "projectOptions x cfg = Inr opts" "options srv \<noteq> opts"
      "writeConfig x os (srv\<lparr>options := opts\<rparr>) cfg = (Some err, evs)"
      "update x os cfg srv =
         (srv\<lparr>options := opts\<rparr>,
          evs @ [Log ErrorLevel (Some err) [(''service'', ''envoy'')]
                   ''envoy: failed to write envoy config''])"
  | (run_fails) opts evs err srv2 evs2 where
      "projectOptions x cfg = Inr opts" "options srv \<noteq> opts"
      "writeConfig x os (srv\<lparr>options := opts\<rparr>) cfg = (None, evs)"
      "run x os (srv\<lparr>options := opts\<rparr>) = (Some err, srv2, evs2)"
      "update x os cfg srv =
         (srv2, evs @ [Log InfoLevel None [] ''envoy: starting envoy process''] @ evs2
                @ [Log ErrorLevel (Some err) [(''service'', ''envoy'')]
                     ''envoy: failed to run envoy process''])"
  | (run_ok) opts evs srv2 evs2 where
      "projectOptions x cfg = Inr opts" "options srv \<noteq> opts"
      "writeConfig x os (srv\<lparr>options := opts\<rparr>) cfg = (None, evs)"
      "run x os (srv\<lparr>options := opts\<rparr>) = (None, srv2, evs2)"
      "update x os cfg srv =
         (srv2, evs @ [Log InfoLevel None [] ''envoy: starting envoy process''] @ evs2)"
proof (cases "projectOptions x cfg")
  case (Inl err)
  then show ?thesis using tracing by (simp add: update_def)
next
  case (Inr opts)
  note p = this
  show ?thesis
  proof (cases "options srv = opts")
    case True
    with p show ?thesis using same by (simp add: update_def)
  next
    case False
    note d = this
    obtain werr evs where w: "writeConfig x os (srv\<lparr>options := opts\<rparr>) cfg = (werr, evs)"
      by (cases "writeConfig x os (srv\<lparr>options := opts\<rparr>) cfg")
    show ?thesis
    proof (cases werr)
      case (Some err)
      with p d w show ?thesis using write_fails by (simp add: update_def)
    next
      case None
      note wn = this
      obtain rerr srv2 evs2 where r: "run x os (srv\<lparr>options := opts\<rparr>) = (rerr, srv2, evs2)"
        by (cases "run x os (srv\<lparr>options := opts\<rparr>)")
      show ?thesis
      proof (cases rerr)
        case (Some err)
        with p d w wn r show ?thesis using run_fails by (simp add: update_def)
      next
        case None
        with p d w wn r show ?thesis using run_ok by (simp add: update_def)
      qed
    qed
  qed
qed

lemma update_options:
  "projectOptions x cfg = Inr opts \<Longrightarrow> options (fst (update x os cfg srv)) = opts"
proof (cases rule: update_cases [of x cfg os srv])
  case (run_fails opts' evs err srv2 evs2)
  assume "projectOptions x cfg = Inr opts"
  with run_fails run_options [of x os "srv\<lparr>options := opts'\<rparr>"] show ?thesis by simp
next
  case (run_ok opts' evs srv2 evs2)
  assume "projectOptions x cfg = Inr opts"
  with run_ok run_options [of x os "srv\<lparr>options := opts'\<rparr>"] show ?thesis by simp
qed auto

lemma update_same_options:
  "projectOptions x cfg = Inr (options srv) \<Longrightarrow>
   update x os cfg srv =
     (srv, [Log DebugLevel None [(''service'', ''envoy'')] ''envoy: no config changes detected''])"
  by (simp add: update_def)

lemma run_starts_once:
  "length (filter isStart (snd (snd (run x os srv)))) \<le> 1"
proof (cases rule: run_cases [of os x srv])
  case (ok pid)
  have "filter isStart (releasePrevious os srv) = []"
    by (auto simp: filter_empty_conv dest: releasePrevious_no_Start)
  with ok show ?thesis by simp
qed simp_all

lemma writeConfig_no_Start:
  "filter isStart (snd (writeConfig x os srv cfg)) = []"
  by (auto simp: filter_empty_conv writeConfig_def split: sum.splits)

lemma update_starts_once:
  "length (filter isStart (snd (update x os cfg srv))) \<le> 1"
proof (cases rule: update_cases [of x cfg os srv])
  case (write_fails opts err evs)
  with writeConfig_no_Start [of x os "srv\<lparr>options := opts\<rparr>" cfg] show ?thesis by simp
next
  case (run_fails opts evs err srv2 evs2)
  with writeConfig_no_Start [of x os "srv\<lparr>options := opts\<rparr>" cfg]
    run_starts_once [of x os "srv\<lparr>options := opts\<rparr>"] show ?thesis by simp
next
  case (run_ok opts evs srv2 evs2)
  with writeConfig_no_Start [of x os "srv\<lparr>options := opts\<rparr>" cfg]
    run_starts_once [of x os "srv\<lparr>options := opts\<rparr>"] show ?thesis by simp
qed simp_all

lemma update_run_ok:
  assumes "projectOptions x cfg = Inr opts" and "options srv \<noteq> opts"
    and "writeConfig x os (srv\<lparr>options := opts\<rparr>) cfg = (None, evs)"
    and "StderrPipe os = None" and "StdoutPipe os = None" and "cmdStart os = Inr pid"
  shows "update x os cfg srv =
           (srv\<lparr>options := opts,
                restartEpoch := snd (runArgs x os (srv\<lparr>options := opts\<rparr>)),
                cmd := Some \<lparr>Args = envoyPath srv # fst (runArgs x os (srv\<lparr>options := opts\<rparr>)),
                             Dir = wd srv, Process = Some pid\<rparr>\<rparr>,
            evs @ [Log InfoLevel None [] ''envoy: starting envoy process'']
            @ Start \<lparr>Args = envoyPath srv # fst (runArgs x os (srv\<lparr>options := opts\<rparr>)),
                      Dir = wd srv, Process = Some pid\<rparr>
            # releasePrevious os srv)"
  using assms run_Start_succeeds [of os pid x "srv\<lparr>options := opts\<rparr>"]
  by (simp add: update_def releasePrevious_options Let_def)

subsection \<open>The concrete setting, evaluated\<close>

lemma Atoi_5443: "Atoi ''5443'' = Inr 5443"
  by (simp add: Atoi_def ParseUint10_def isDigit_def byte_def)

lemma Itoa_small: "Itoa 0 = ''0''" "Itoa 1 = ''1''" "Itoa 2 = ''2''" "Itoa 7 = ''7''"
  by code_simp+

lemma exampleExt_simps:
  "Checksum exampleExt = []"
  "baseIDPath exampleExt = ''/tmp/.pomerium-envoy/envoy-base-id''"
  "DatadogTracingProviderName exampleExt = ''datadog''"
  "ServiceName exampleExt svc = svc"
  "Marshal exampleExt bcfg = Inr ''{}''"
  "Join exampleExt dir file = dir @ ''/'' @ file"
  "sha256hex exampleExt bs = ''cd''"
  by (simp_all add: exampleExt_def)

lemma example_projectOptions:
  "projectOptions exampleExt (exampleConfig svc provider) =
     (if provider = ''bogus'' then Inl (ExternalError ''unsupported tracing provider'')
      else Inr \<lparr>services = svc, logLevel = ''info'',
                tracingOptions = \<lparr>Provider = provider, DatadogAddress = []\<rparr>\<rparr>)"
  by (simp add: projectOptions_def exampleExt_def exampleConfig_def)

lemma example_bootstrapMessage:
  "grpcPort srv = ''5443'' \<Longrightarrow>
   bootstrapMessage exampleExt srv (exampleConfig svc provider) =
     Inr \<lparr>Node = \<lparr>Id = ''proxy'', NodeCluster = ''proxy''\<rparr>,
          Admin = \<lparr>AccessLogPath = ''/tmp/admin_access.log'', ProfilePath = ''/tmp/envoy.prof'',
                   AdminAddress =
                     Address_SocketAddress \<lparr>Address = ''127.0.0.1'', PortValue = 9901\<rparr>\<rparr>,
          DynamicResources =
            \<lparr>AdsConfig = \<lparr>ApiType = DELTA_GRPC, TransportApiVersion = V3,
                           GrpcServices = [''pomerium-control-plane-grpc'']\<rparr>,
             LdsConfig = \<lparr>ResourceApiVersion = V3, ConfigSourceSpecifier = ConfigSource_Ads\<rparr>,
             CdsConfig = \<lparr>ResourceApiVersion = V3, ConfigSourceSpecifier = ConfigSource_Ads\<rparr>\<rparr>,
          StaticResources =
            \<lparr>Clusters =
               (if Provider (tracingOptions (options srv)) = ''datadog''
                then [staticCluster ''pomerium-control-plane-grpc''
                        \<lparr>Address = ''127.0.0.1'', PortValue = 5443\<rparr> True,
                      staticCluster ''datadog-apm''
                        (datadogAddr (DatadogAddress (tracingOptions (options srv)))) False]
                else [staticCluster ''pomerium-control-plane-grpc''
                        \<lparr>Address = ''127.0.0.1'', PortValue = 5443\<rparr> True])\<rparr>,
          StatsConfig = \<lparr>StatsTags = [\<lparr>TagName = ''service'',
                                         FixedValue = services (options srv)\<rparr>]\<rparr>\<rparr>"
  by (simp add: bootstrapMessage_def buildStatsConfig_def exampleExt_def exampleConfig_def
      Atoi_5443 Let_def)

lemma example_writeConfig:
  "grpcPort srv = ''5443'' \<Longrightarrow>
   writeConfig exampleExt os srv (exampleConfig svc provider) =
     (atomicWriteFile os,
      [Log DebugLevel None
         [(''service'', ''envoy''), (''location'', wd srv @ ''/envoy-config.yaml'')]
         ''wrote config file to location'',
       WriteFile (wd srv) ''envoy-config.yaml'' ''{}''])"
  by (simp add: writeConfig_def buildBootstrapConfig_def example_bootstrapMessage
      exampleExt_simps configFileName_def)

text \<open>What evaluates the change handler in the concrete setting.\<close>

lemmas example_eval =
  update_def example_projectOptions example_writeConfig run_def runArgs_def
  releasePrevious_def Itoa_small exampleExt_simps configFileName_def exampleServer_def
  exampleOs_def Let_def

lemma example_first_update:
  "update exampleExt exampleOs (exampleConfig ''proxy'' []) exampleServer =
     (exampleServer
        \<lparr>options := \<lparr>services = ''proxy'', logLevel = ''info'',
                      tracingOptions = \<lparr>Provider = [], DatadogAddress = []\<rparr>\<rparr>,
         restartEpoch := 1,
         cmd := Some \<lparr>Args = [''/tmp/envoy'', ''-c'', ''envoy-config.yaml'', ''--log-level'',
                              ''info'', ''--log-format'', ''[LOG_FORMAT]%l--%n--%v'',
                              ''--log-format-escaped'', ''--base-id'', ''7'',
                              ''--restart-epoch'', ''0''],
                      Dir = ''/tmp/.pomerium-envoy'', Process = Some 42\<rparr>\<rparr>,
      [Log DebugLevel None
         [(''service'', ''envoy''), (''location'', ''/tmp/.pomerium-envoy/envoy-config.yaml'')]
         ''wrote config file to location'',
       WriteFile ''/tmp/.pomerium-envoy'' ''envoy-config.yaml'' ''{}'',
       Log InfoLevel None [] ''envoy: starting envoy process'',
       Start \<lparr>Args = [''/tmp/envoy'', ''-c'', ''envoy-config.yaml'', ''--log-level'',
                      ''info'', ''--log-format'', ''[LOG_FORMAT]%l--%n--%v'',
                      ''--log-format-escaped'', ''--base-id'', ''7'',
                      ''--restart-epoch'', ''0''],
              Dir = ''/tmp/.pomerium-envoy'', Process = Some 42\<rparr>])"
proof -
  let ?opts = "\<lparr>services = ''proxy'', logLevel = ''info'',
                 tracingOptions = \<lparr>Provider = [], DatadogAddress = []\<rparr>\<rparr>"
  have p: "projectOptions exampleExt (exampleConfig ''proxy'' []) = Inr ?opts"
    by (simp add: example_projectOptions)
  have d: "options exampleServer \<noteq> ?opts" by (simp add: exampleServer_def)
  have w: "writeConfig exampleExt exampleOs (exampleServer\<lparr>options := ?opts\<rparr>)
             (exampleConfig ''proxy'' []) =
           (None,
            [Log DebugLevel None
               [(''service'', ''envoy''),
                (''location'', ''/tmp/.pomerium-envoy/envoy-config.yaml'')]
               ''wrote config file to location'',
             WriteFile ''/tmp/.pomerium-envoy'' ''envoy-config.yaml'' ''{}''])"
    by (simp add: example_writeConfig exampleServer_def exampleOs_def)
  have os: "StderrPipe exampleOs = None" "StdoutPipe exampleOs = None" "cmdStart exampleOs = Inr 42"
    by (simp_all add: exampleOs_def)
  show ?thesis
    unfolding update_run_ok [OF p d w os]
    by (simp add: runArgs_def exampleOs_def exampleServer_def exampleExt_simps Itoa_small
        configFileName_def releasePrevious_def)
qed

text \<open>
  C2. Two configurations that ask for the same options of the server: after the change
  handler has run on the first, it does nothing on the second but log that nothing
  changed. The server stays as it is, no file is written and nothing is started,
  whatever the operating system would answer and whether the bootstrap message could be
  built or not. The two calls together start one process at most.
\<close>

theorem update_twice_same_options:
  assumes "projectOptions x cfg1 = Inr opts" and "projectOptions x cfg2 = Inr opts"
  shows "update x os2 cfg2 (fst (update x os1 cfg1 srv)) =
           (fst (update x os1 cfg1 srv),
            [Log DebugLevel None [(''service'', ''envoy'')] ''envoy: no config changes detected''])
         \<and> length (filter isStart
                     (snd (update x os1 cfg1 srv)
                      @ snd (update x os2 cfg2 (fst (update x os1 cfg1 srv))))) \<le> 1"
proof -
  have o: "options (fst (update x os1 cfg1 srv)) = opts"
    using assms(1) by (rule update_options)
  have second: "update x os2 cfg2 (fst (update x os1 cfg1 srv)) =
      (fst (update x os1 cfg1 srv),
       [Log DebugLevel None [(''service'', ''envoy'')] ''envoy: no config changes detected''])"
    using assms(2) o by (simp add: update_same_options)
  show ?thesis using second update_starts_once [of x os1 cfg1 srv] by simp
qed

text \<open>
  The new server, a first configuration and then a second one that differs in the
  address of the admin interface only: one start, and the second call logs one line.
\<close>

theorem update_twice_same_options_witness:
  "update exampleExt (exampleOs\<lparr>cmdStart := Inr 43\<rparr>)
     (exampleConfig ''proxy'' []\<lparr>Options := Options (exampleConfig ''proxy'' [])\<lparr>EnvoyAdminAddress := []\<rparr>\<rparr>)
     (fst (update exampleExt exampleOs (exampleConfig ''proxy'' []) exampleServer)) =
     (fst (update exampleExt exampleOs (exampleConfig ''proxy'' []) exampleServer),
      [Log DebugLevel None [(''service'', ''envoy'')] ''envoy: no config changes detected''])
   \<and> filter isStart (snd (update exampleExt exampleOs (exampleConfig ''proxy'' []) exampleServer)) =
       [Start \<lparr>Args = [''/tmp/envoy'', ''-c'', ''envoy-config.yaml'', ''--log-level'', ''info'',
                     ''--log-format'', ''[LOG_FORMAT]%l--%n--%v'', ''--log-format-escaped'',
                     ''--base-id'', ''7'', ''--restart-epoch'', ''0''],
             Dir = ''/tmp/.pomerium-envoy'', Process = Some 42\<rparr>]"
proof -
  let ?cfg2 = "exampleConfig ''proxy'' []\<lparr>Options := Options (exampleConfig ''proxy'' [])\<lparr>EnvoyAdminAddress := []\<rparr>\<rparr>"
  let ?opts = "\<lparr>services = ''proxy'', logLevel = ''info'',
                 tracingOptions = \<lparr>Provider = [], DatadogAddress = []\<rparr>\<rparr>"
  have p1: "projectOptions exampleExt (exampleConfig ''proxy'' []) = Inr ?opts"
    by (simp add: example_projectOptions)
  have p2: "projectOptions exampleExt ?cfg2 = Inr ?opts"
    by (simp add: projectOptions_def exampleExt_def exampleConfig_def)
  from update_twice_same_options [OF p1 p2, of "exampleOs\<lparr>cmdStart := Inr 43\<rparr>" exampleOs exampleServer]
  show ?thesis by (simp add: example_first_update)
qed

lemma run_fails_result:
  assumes "run x os srv = (Some err, srv2, evs2)"
  shows "srv2 = srv\<lparr>restartEpoch := snd (runArgs x os srv)\<rparr>
         \<and> (\<forall>ev\<in>set evs2. \<not> started ev \<and> \<not> isRelease ev \<and> \<not> isKill ev \<and> \<not> isErrorLog ev)"
  using assms by (cases rule: run_cases [of os x srv]) auto

lemma update_ok_no_error_log:
  assumes "writeConfig x os srv1 cfg = (None, evs)" and "run x os srv1 = (None, srv2, evs2)"
  shows "\<forall>ev\<in>set (evs @ [Log InfoLevel None [] ''envoy: starting envoy process''] @ evs2).
           \<not> isErrorLog ev"
proof -
  have "\<forall>ev\<in>set evs. \<not> isErrorLog ev"
    using assms(1) writeConfig_events by blast
  moreover have "\<forall>ev\<in>set evs2. \<not> isErrorLog ev"
    using assms(2) by (cases rule: run_cases [of os x srv1]) (auto dest: releasePrevious_no_Start)
  ultimately show ?thesis by auto
qed

text \<open>
  C3, as the code has it. Where the change handler logs a failure, the command of the
  server is the one it held, and no process is started, released or killed. With
  tracing options that are not valid, the whole server is as before. With options that
  are, the options of the server are already the new ones, all else but the restart
  epoch is as before, and the restart epoch too where the bootstrap message could not
  be built or the file not written (nothing is started there).
\<close>

theorem update_failure_keeps_process:
  assumes u: "update x os cfg srv = (srv', evs)" and f: "\<exists>ev\<in>set evs. isErrorLog ev"
  shows "cmd srv' = cmd srv
         \<and> (\<forall>ev\<in>set evs. \<not> started ev \<and> \<not> isRelease ev \<and> \<not> isKill ev)
         \<and> (\<forall>err. projectOptions x cfg = Inl err \<longrightarrow> srv' = srv)
         \<and> (\<forall>opts. projectOptions x cfg = Inr opts \<longrightarrow>
               srv' = srv\<lparr>options := opts, restartEpoch := restartEpoch srv'\<rparr>
               \<and> (fst (writeConfig x os (srv\<lparr>options := opts\<rparr>) cfg) \<noteq> None \<longrightarrow>
                    restartEpoch srv' = restartEpoch srv \<and> (\<forall>ev\<in>set evs. \<not> isStart ev)))"
proof (cases rule: update_cases [of x cfg os srv])
  case (tracing err)
  with u show ?thesis by auto
next
  case (same opts)
  with u f show ?thesis by auto
next
  case (write_fails opts err wevs)
  have "\<forall>ev\<in>set wevs. \<not> isStart ev \<and> \<not> isRelease ev \<and> \<not> isKill ev"
    using write_fails(3) writeConfig_events by blast
  moreover have "\<not> started ev" if "\<not> isStart ev" for ev
    using that by (cases ev) auto
  ultimately show ?thesis using u write_fails by auto
next
  case (run_fails opts wevs err srv2 evs2)
  have w: "\<forall>ev\<in>set wevs. \<not> isStart ev \<and> \<not> isRelease ev \<and> \<not> isKill ev"
    using run_fails(3) writeConfig_events by blast
  have ns: "\<not> started ev" if "\<not> isStart ev" for ev
    using that by (cases ev) auto
  from run_fails_result [OF run_fails(4)]
  have s2: "srv2 = srv\<lparr>options := opts,
                       restartEpoch := snd (runArgs x os (srv\<lparr>options := opts\<rparr>))\<rparr>"
    and e2: "\<forall>ev\<in>set evs2. \<not> started ev \<and> \<not> isRelease ev \<and> \<not> isKill ev"
    by auto
  from u run_fails have "srv' = srv2"
    and "evs = wevs @ [Log InfoLevel None [] ''envoy: starting envoy process''] @ evs2
               @ [Log ErrorLevel (Some err) [(''service'', ''envoy'')]
                    ''envoy: failed to run envoy process'']"
    by simp_all
  with s2 e2 w ns run_fails(1,3) show ?thesis by auto
next
  case (run_ok opts wevs srv2 evs2)
  from update_ok_no_error_log [OF run_ok(3,4)] u run_ok(5) f show ?thesis by auto
qed

text \<open>
  The new server and a file that cannot be written: the failure is logged, nothing is
  started, and the server differs from the one before in its options only.
\<close>

theorem update_failure_keeps_process_witness:
  "update exampleExt (exampleOs\<lparr>atomicWriteFile := Some (ExternalError ''no space left on device'')\<rparr>)
     (exampleConfig ''proxy'' []) exampleServer =
     (exampleServer\<lparr>options := \<lparr>services = ''proxy'', logLevel = ''info'',
                                 tracingOptions = \<lparr>Provider = [], DatadogAddress = []\<rparr>\<rparr>\<rparr>,
      [Log DebugLevel None
         [(''service'', ''envoy''), (''location'', ''/tmp/.pomerium-envoy/envoy-config.yaml'')]
         ''wrote config file to location'',
       WriteFile ''/tmp/.pomerium-envoy'' ''envoy-config.yaml'' ''{}'',
       Log ErrorLevel (Some (ExternalError ''no space left on device'')) [(''service'', ''envoy'')]
         ''envoy: failed to write envoy config''])
   \<and> cmd (fst (update exampleExt
                 (exampleOs\<lparr>atomicWriteFile := Some (ExternalError ''no space left on device'')\<rparr>)
                 (exampleConfig ''proxy'' []) exampleServer)) = cmd exampleServer
   \<and> restartEpoch (fst (update exampleExt
                 (exampleOs\<lparr>atomicWriteFile := Some (ExternalError ''no space left on device'')\<rparr>)
                 (exampleConfig ''proxy'' []) exampleServer)) = restartEpoch exampleServer"
proof -
  let ?os = "exampleOs\<lparr>atomicWriteFile := Some (ExternalError ''no space left on device'')\<rparr>"
  let ?opts = "\<lparr>services = ''proxy'', logLevel = ''info'',
                 tracingOptions = \<lparr>Provider = [], DatadogAddress = []\<rparr>\<rparr>"
  have p: "projectOptions exampleExt (exampleConfig ''proxy'' []) = Inr ?opts"
    by (simp add: example_projectOptions)
  have w: "fst (writeConfig exampleExt ?os (exampleServer\<lparr>options := ?opts\<rparr>)
             (exampleConfig ''proxy'' [])) \<noteq> None"
    by (simp add: example_writeConfig exampleServer_def exampleOs_def)
  have e: "update exampleExt ?os (exampleConfig ''proxy'' []) exampleServer =
     (exampleServer\<lparr>options := ?opts\<rparr>,
      [Log DebugLevel None
         [(''service'', ''envoy''), (''location'', ''/tmp/.pomerium-envoy/envoy-config.yaml'')]
         ''wrote config file to location'',
       WriteFile ''/tmp/.pomerium-envoy'' ''envoy-config.yaml'' ''{}'',
       Log ErrorLevel (Some (ExternalError ''no space left on device'')) [(''service'', ''envoy'')]
         ''envoy: failed to write envoy config''])"
    by (simp add: update_def example_projectOptions example_writeConfig exampleServer_def
        exampleOs_def)
  have f: "\<exists>ev\<in>set [Log DebugLevel None
         [(''service'', ''envoy''), (''location'', ''/tmp/.pomerium-envoy/envoy-config.yaml'')]
         ''wrote config file to location'',
       WriteFile ''/tmp/.pomerium-envoy'' ''envoy-config.yaml'' ''{}'',
       Log ErrorLevel (Some (ExternalError ''no space left on device'')) [(''service'', ''envoy'')]
         ''envoy: failed to write envoy config'']. isErrorLog ev"
    by simp
  from update_failure_keeps_process [OF e f] p w e show ?thesis by simp
qed

text \<open>
  C3 as it is written does not hold. From the new server (no options, restart epoch 0)
  a write that fails leaves the server with the new options, and a start that fails
  leaves it with the new options and restart epoch 1; both failures are logged.
\<close>

theorem update_failure_changes_state_counterexample:
  "options exampleServer =
     \<lparr>services = [], logLevel = [], tracingOptions = \<lparr>Provider = [], DatadogAddress = []\<rparr>\<rparr>
   \<and> restartEpoch exampleServer = 0
   \<and> options (fst (update exampleExt
                     (exampleOs\<lparr>atomicWriteFile := Some (ExternalError ''no space left on device'')\<rparr>)
                     (exampleConfig ''proxy'' []) exampleServer)) =
       \<lparr>services = ''proxy'', logLevel = ''info'',
        tracingOptions = \<lparr>Provider = [], DatadogAddress = []\<rparr>\<rparr>
   \<and> last (snd (update exampleExt
                   (exampleOs\<lparr>atomicWriteFile := Some (ExternalError ''no space left on device'')\<rparr>)
                   (exampleConfig ''proxy'' []) exampleServer)) =
       Log ErrorLevel (Some (ExternalError ''no space left on device'')) [(''service'', ''envoy'')]
         ''envoy: failed to write envoy config''
   \<and> update exampleExt (exampleOs\<lparr>cmdStart := Inl (ExternalError ''exec format error'')\<rparr>)
       (exampleConfig ''proxy'' []) exampleServer =
       (exampleServer\<lparr>options := \<lparr>services = ''proxy'', logLevel = ''info'',
                                   tracingOptions = \<lparr>Provider = [], DatadogAddress = []\<rparr>\<rparr>,
                       restartEpoch := 1\<rparr>,
        [Log DebugLevel None
           [(''service'', ''envoy''), (''location'', ''/tmp/.pomerium-envoy/envoy-config.yaml'')]
           ''wrote config file to location'',
         WriteFile ''/tmp/.pomerium-envoy'' ''envoy-config.yaml'' ''{}'',
         Log InfoLevel None [] ''envoy: starting envoy process'',
         Start \<lparr>Args = [''/tmp/envoy'', ''-c'', ''envoy-config.yaml'', ''--log-level'', ''info'',
                        ''--log-format'', ''[LOG_FORMAT]%l--%n--%v'', ''--log-format-escaped'',
                        ''--base-id'', ''7'', ''--restart-epoch'', ''0''],
                Dir = ''/tmp/.pomerium-envoy'', Process = None\<rparr>,
         Log ErrorLevel (Some (ErrStartingEnvoy (ExternalError ''exec format error'')))
           [(''service'', ''envoy'')] ''envoy: failed to run envoy process''])"
  by (simp add: update_def example_projectOptions example_writeConfig run_def runArgs_def
      Itoa_small exampleExt_simps configFileName_def exampleServer_def exampleOs_def Let_def)

section \<open>Close\<close>

lemma Close_with_process:
  "cmd srv = Some c \<Longrightarrow> Process c = Some p \<Longrightarrow>
   Close os srv =
     (processKill os, srv\<lparr>cmd := None\<rparr>,
      Kill p # (case processKill os of
                  None \<Rightarrow> []
                | Some err \<Rightarrow> [Log ErrorLevel (Some err) [(''service'', ''envoy'')]
                                ''envoy: failed to kill process on close'']))"
  by (simp add: Close_def)

text \<open>
  C4, as the code has it. \<^verbatim>\<open>Close\<close> on a server that holds a process kills that
  process first and clears the command, whether the kill fails or not, and changes
  nothing else: the server has no closed state. A later change of configuration to
  options other than the current ones is handled as any other: where the file is
  written and \<^verbatim>\<open>cmd.Start\<close> succeeds, the closed server starts a process and holds
  it, and releases none.
\<close>

theorem Close_kills_and_clears:
  assumes "cmd srv = Some c" and "Process c = Some p"
    and "Close os srv = (res, closed, evs)"
  shows "closed = srv\<lparr>cmd := None\<rparr> \<and> hd evs = Kill p \<and> res = processKill os
         \<and> (\<forall>x os' cfg opts wevs pid.
               projectOptions x cfg = Inr opts \<and> options srv \<noteq> opts
               \<and> writeConfig x os' (closed\<lparr>options := opts\<rparr>) cfg = (None, wevs)
               \<and> StderrPipe os' = None \<and> StdoutPipe os' = None \<and> cmdStart os' = Inr pid
               \<longrightarrow> (\<exists>c'. cmd (fst (update x os' cfg closed)) = Some c' \<and> Process c' = Some pid
                         \<and> snd (update x os' cfg closed) =
                             wevs @ [Log InfoLevel None [] ''envoy: starting envoy process'',
                                     Start c']))"
proof -
  from assms have c: "closed = srv\<lparr>cmd := None\<rparr>" and k: "hd evs = Kill p"
    and r: "res = processKill os"
    by (auto simp: Close_with_process)
  have "\<exists>c'. cmd (fst (update x os' cfg closed)) = Some c' \<and> Process c' = Some pid
              \<and> snd (update x os' cfg closed) =
                  wevs @ [Log InfoLevel None [] ''envoy: starting envoy process'', Start c']"
    if h: "projectOptions x cfg = Inr opts" "options srv \<noteq> opts"
      "writeConfig x os' (closed\<lparr>options := opts\<rparr>) cfg = (None, wevs)"
      "StderrPipe os' = None" "StdoutPipe os' = None" "cmdStart os' = Inr pid"
    for x :: "'a ext" and os' cfg opts wevs pid
  proof -
    from h(2) c have d: "options closed \<noteq> opts" by simp
    have n: "releasePrevious os' closed = []" using c by (simp add: releasePrevious_def)
    show ?thesis
      unfolding update_run_ok [OF h(1) d h(3) h(4) h(5) h(6)] using n by simp
  qed
  with c k r show ?thesis by blast
qed

text \<open>
  The server after its first configuration holds process 42. \<^verbatim>\<open>Close\<close> kills 42 and
  clears the command; the next change of configuration starts process 43.
\<close>

theorem Close_kills_and_clears_witness:
  "Close exampleOs (fst (update exampleExt exampleOs (exampleConfig ''proxy'' []) exampleServer)) =
     (None,
      fst (update exampleExt exampleOs (exampleConfig ''proxy'' []) exampleServer)\<lparr>cmd := None\<rparr>,
      [Kill 42])
   \<and> filter isStart
       (snd (update exampleExt (exampleOs\<lparr>cmdStart := Inr 43\<rparr>) (exampleConfig ''all'' [])
               (fst (update exampleExt exampleOs (exampleConfig ''proxy'' []) exampleServer)
                  \<lparr>cmd := None\<rparr>))) =
       [Start \<lparr>Args = [''/tmp/envoy'', ''-c'', ''envoy-config.yaml'', ''--log-level'', ''info'',
                      ''--log-format'', ''[LOG_FORMAT]%l--%n--%v'', ''--log-format-escaped'',
                      ''--base-id'', ''7'', ''--restart-epoch'', ''1''],
              Dir = ''/tmp/.pomerium-envoy'', Process = Some 43\<rparr>]"
proof -
  let ?srv = "fst (update exampleExt exampleOs (exampleConfig ''proxy'' []) exampleServer)"
  let ?c = "\<lparr>Args = [''/tmp/envoy'', ''-c'', ''envoy-config.yaml'', ''--log-level'',
                      ''info'', ''--log-format'', ''[LOG_FORMAT]%l--%n--%v'',
                      ''--log-format-escaped'', ''--base-id'', ''7'',
                      ''--restart-epoch'', ''0''],
              Dir = ''/tmp/.pomerium-envoy'', Process = Some 42\<rparr>"
  let ?os' = "exampleOs\<lparr>cmdStart := Inr 43\<rparr>"
  let ?opts = "\<lparr>services = ''all'', logLevel = ''info'',
                 tracingOptions = \<lparr>Provider = [], DatadogAddress = []\<rparr>\<rparr>"
  let ?wevs = "[Log DebugLevel None
         [(''service'', ''envoy''), (''location'', ''/tmp/.pomerium-envoy/envoy-config.yaml'')]
         ''wrote config file to location'',
       WriteFile ''/tmp/.pomerium-envoy'' ''envoy-config.yaml'' ''{}'']"
  have c: "cmd ?srv = Some ?c" by (simp add: example_first_update)
  have p: "Process ?c = Some 42" by simp
  have cl: "Close exampleOs ?srv = (None, ?srv\<lparr>cmd := None\<rparr>, [Kill 42])"
  proof -
    have "processKill exampleOs = None" by (simp add: exampleOs_def)
    then show ?thesis by (simp add: Close_with_process [OF c p])
  qed
  have po: "projectOptions exampleExt (exampleConfig ''all'' []) = Inr ?opts"
    by (simp add: example_projectOptions)
  have d: "options ?srv \<noteq> ?opts" by (simp add: example_first_update)
  have w: "writeConfig exampleExt ?os' (?srv\<lparr>cmd := None\<rparr>\<lparr>options := ?opts\<rparr>)
             (exampleConfig ''all'' []) = (None, ?wevs)"
    unfolding example_first_update
    by (simp add: example_writeConfig exampleServer_def exampleOs_def)
  have os: "StderrPipe ?os' = None" "StdoutPipe ?os' = None" "cmdStart ?os' = Inr 43"
    by (simp_all add: exampleOs_def)
  from Close_kills_and_clears [OF c p cl] po d w os
  obtain c' where c': "cmd (fst (update exampleExt ?os' (exampleConfig ''all'' []) (?srv\<lparr>cmd := None\<rparr>))) = Some c'"
      "Process c' = Some 43"
      "snd (update exampleExt ?os' (exampleConfig ''all'' []) (?srv\<lparr>cmd := None\<rparr>)) =
         ?wevs @ [Log InfoLevel None [] ''envoy: starting envoy process'', Start c']"
    by blast
  have "cmd (fst (update exampleExt ?os' (exampleConfig ''all'' []) (?srv\<lparr>cmd := None\<rparr>))) =
     Some \<lparr>Args = [''/tmp/envoy'', ''-c'', ''envoy-config.yaml'', ''--log-level'', ''info'',
                      ''--log-format'', ''[LOG_FORMAT]%l--%n--%v'', ''--log-format-escaped'',
                      ''--base-id'', ''7'', ''--restart-epoch'', ''1''],
              Dir = ''/tmp/.pomerium-envoy'', Process = Some 43\<rparr>"
    unfolding example_first_update by (simp add: example_eval)
  with c' cl show ?thesis by simp
qed

text \<open>
  C4 as it is written does not hold: there is no terminal state. The new server
  receives a configuration, then \<^verbatim>\<open>Close\<close>, then another configuration; process 42
  is started and killed, and after that process 43 is started.
\<close>

theorem Close_not_terminal_counterexample:
  "filter (\<lambda>ev. isStart ev \<or> isKill ev \<or> isRelease ev)
     (snd (lifetime exampleExt
             [ConfigChange exampleOs (exampleConfig ''proxy'' []),
              CloseCall exampleOs,
              ConfigChange (exampleOs\<lparr>cmdStart := Inr 43\<rparr>) (exampleConfig ''all'' [])]
             exampleServer)) =
     [Start \<lparr>Args = [''/tmp/envoy'', ''-c'', ''envoy-config.yaml'', ''--log-level'', ''info'',
                    ''--log-format'', ''[LOG_FORMAT]%l--%n--%v'', ''--log-format-escaped'',
                    ''--base-id'', ''7'', ''--restart-epoch'', ''0''],
            Dir = ''/tmp/.pomerium-envoy'', Process = Some 42\<rparr>,
      Kill 42,
      Start \<lparr>Args = [''/tmp/envoy'', ''-c'', ''envoy-config.yaml'', ''--log-level'', ''info'',
                    ''--log-format'', ''[LOG_FORMAT]%l--%n--%v'', ''--log-format-escaped'',
                    ''--base-id'', ''7'', ''--restart-epoch'', ''1''],
            Dir = ''/tmp/.pomerium-envoy'', Process = Some 43\<rparr>]"
  unfolding lifetime.simps onConfigChange_def example_first_update
  by (simp add: Close_def example_eval)

section \<open>The restart epoch\<close>



lemma runs_length: "length (runs x oss srv) = length oss"
  by (induction oss arbitrary: srv) (auto split: prod.splits)


text \<open>
  \<^verbatim>\<open>strconv.Itoa\<close> writes distinct numbers differently: restart epochs that differ
  are arguments that differ.
\<close>

lemma of_char_digit: "n < 10 \<Longrightarrow> (of_char (char_of (48 + n) :: char) :: nat) = 48 + n"
  by (simp add: of_char_of)


lemma digitsOf_value:
  "foldl (\<lambda>a c. a * 10 + (byte c - 48)) 0 (digitsOf n) = n"
proof (induction n rule: digitsOf.induct)
  case (1 n)
  show ?case
  proof (cases "n < 10")
    case True
    then show ?thesis by (simp add: digitsOf.simps [of n] byte_def of_char_digit)
  next
    case False
    have "n mod 10 < 10" by simp
    then have d: "byte (char_of (48 + n mod 10)) - 48 = n mod 10"
      by (simp add: byte_def of_char_digit)
    from False "1.IH" show ?thesis
      by (simp add: digitsOf.simps [of n] d)
  qed
qed

lemma Itoa_inj_nat: "Itoa (int n) = Itoa (int m) \<Longrightarrow> n = m"
proof -
  assume "Itoa (int n) = Itoa (int m)"
  then have "digitsOf n = digitsOf m" by (simp add: Itoa_def)
  then have "foldl (\<lambda>a c. a * 10 + (byte c - 48)) 0 (digitsOf n)
           = foldl (\<lambda>a c. a * 10 + (byte c - 48)) 0 (digitsOf m)" by simp
  then show ?thesis by (simp only: digitsOf_value)
qed




section \<open>The construction of a server\<close>

text \<open>
  C6. With a checksum configured and a binary whose digest differs from it,
  \<^verbatim>\<open>NewServer\<close> returns an error and starts nothing; where the directory, the
  lookup and the read succeed, the error is the one that names both digests. With no
  checksum configured, the binary is not read: where the directory and the lookup
  succeed, \<^verbatim>\<open>NewServer\<close> returns a server and logs that the binary is not
  verified.
\<close>

theorem NewServer_checksum:
  "(Checksum x \<noteq> []
      \<and> (\<forall>full bs. LookPath os (case extractEmbeddedEnvoy os of Inl e \<Rightarrow> ''envoy'' | Inr p \<Rightarrow> p)
                        = Inr full
                    \<and> ReadFile os full = Inr bs \<longrightarrow> sha256hex x bs \<noteq> Checksum x)
      \<longrightarrow> (\<exists>err. fst (NewServer x os cfg grpc http) = Inl err)
          \<and> (\<forall>ev\<in>set (snd (NewServer x os cfg grpc http)). \<not> isStart ev))
   \<and> (\<forall>full bs. Checksum x \<noteq> [] \<and> MkdirAll os = None
         \<and> LookPath os (case extractEmbeddedEnvoy os of Inl e \<Rightarrow> ''envoy'' | Inr p \<Rightarrow> p) = Inr full
         \<and> ReadFile os full = Inr bs \<and> sha256hex x bs \<noteq> Checksum x
         \<longrightarrow> fst (NewServer x os cfg grpc http)
               = Inl (ErrInvalidEnvoyBinary (Checksum x) (sha256hex x bs)))
   \<and> (\<forall>full. Checksum x = [] \<and> MkdirAll os = None
         \<and> LookPath os (case extractEmbeddedEnvoy os of Inl e \<Rightarrow> ''envoy'' | Inr p \<Rightarrow> p) = Inr full
         \<longrightarrow> (\<exists>srv. fst (NewServer x os cfg grpc http) = Inr srv)
             \<and> Log InfoLevel None [] ''no checksum defined, envoy binary will not be verified!''
                 \<in> set (snd (NewServer x os cfg grpc http)))"
proof (intro conjI allI impI)
  assume h: "Checksum x \<noteq> []
      \<and> (\<forall>full bs. LookPath os (case extractEmbeddedEnvoy os of Inl e \<Rightarrow> ''envoy'' | Inr p \<Rightarrow> p)
                        = Inr full
                    \<and> ReadFile os full = Inr bs \<longrightarrow> sha256hex x bs \<noteq> Checksum x)"
  then show "\<exists>err. fst (NewServer x os cfg grpc http) = Inl err"
    by (auto simp: NewServer_def Let_def split: option.splits sum.splits)
  from h show "\<forall>ev\<in>set (snd (NewServer x os cfg grpc http)). \<not> isStart ev"
    by (auto simp: NewServer_def Let_def split: option.splits sum.splits)
next
  fix full bs
  assume "Checksum x \<noteq> [] \<and> MkdirAll os = None
         \<and> LookPath os (case extractEmbeddedEnvoy os of Inl e \<Rightarrow> ''envoy'' | Inr p \<Rightarrow> p) = Inr full
         \<and> ReadFile os full = Inr bs \<and> sha256hex x bs \<noteq> Checksum x"
  then show "fst (NewServer x os cfg grpc http)
               = Inl (ErrInvalidEnvoyBinary (Checksum x) (sha256hex x bs))"
    by (auto simp: NewServer_def Let_def split: option.splits sum.splits)
next
  fix full
  assume h: "Checksum x = [] \<and> MkdirAll os = None
         \<and> LookPath os (case extractEmbeddedEnvoy os of Inl e \<Rightarrow> ''envoy'' | Inr p \<Rightarrow> p) = Inr full"
  then show "\<exists>srv. fst (NewServer x os cfg grpc http) = Inr srv"
    by (auto simp: NewServer_def Let_def split_beta split: option.splits sum.splits)
  from h show "Log InfoLevel None [] ''no checksum defined, envoy binary will not be verified!''
                 \<in> set (snd (NewServer x os cfg grpc http))"
    by (auto simp: NewServer_def Let_def split_beta split: option.splits sum.splits)
qed

text \<open>
  A build with checksum \<^verbatim>\<open>ab\<close> and a binary with digest \<^verbatim>\<open>cd\<close>: an error and no
  event. The same binary and no checksum: a server.
\<close>

theorem NewServer_checksum_witness:
  "NewServer (exampleExt\<lparr>Checksum := ''ab''\<rparr>) exampleOs (exampleConfig ''proxy'' []) ''5443'' ''8080''
     = (Inl (ErrInvalidEnvoyBinary ''ab'' ''cd''), [])
   \<and> (\<exists>srv. fst (NewServer exampleExt exampleOs (exampleConfig ''proxy'' []) ''5443'' ''8080'')
              = Inr srv)
   \<and> Log InfoLevel None [] ''no checksum defined, envoy binary will not be verified!''
       \<in> set (snd (NewServer exampleExt exampleOs (exampleConfig ''proxy'' []) ''5443'' ''8080''))"
proof -
  have a: "NewServer (exampleExt\<lparr>Checksum := ''ab''\<rparr>) exampleOs (exampleConfig ''proxy'' [])
             ''5443'' ''8080'' = (Inl (ErrInvalidEnvoyBinary ''ab'' ''cd''), [])"
    by (simp add: NewServer_def exampleExt_def exampleOs_def)
  have b: "Checksum exampleExt = [] \<and> MkdirAll exampleOs = None
         \<and> LookPath exampleOs
             (case extractEmbeddedEnvoy exampleOs of Inl e \<Rightarrow> ''envoy'' | Inr p \<Rightarrow> p)
           = Inr ''/tmp/envoy''"
    by (simp add: exampleExt_def exampleOs_def)
  from NewServer_checksum [of exampleExt exampleOs "exampleConfig ''proxy'' []" "''5443''" "''8080''"]
    a b show ?thesis by blast
qed

section \<open>The bootstrap message\<close>

lemma LastIndexByte_append:
  "c \<notin> set t \<Longrightarrow> LastIndexByte (h @ c # t) c = Some (length h)"
proof -
  assume "c \<notin> set t"
  then have "takeWhile (\<lambda>x. x \<noteq> c) (rev t @ c # rev h) = rev t"
    by (subst takeWhile_append2) auto
  then show ?thesis by (simp add: LastIndexByte_def)
qed

lemma SplitHostPort_host_port:
  assumes "CHR '':'' \<notin> set host" "CHR ''['' \<notin> set host" "CHR '']'' \<notin> set host"
    and "CHR '':'' \<notin> set port" "CHR ''['' \<notin> set port" "CHR '']'' \<notin> set port"
  shows "SplitHostPort (host @ '':'' @ port) = Inr (host, port)"
proof -
  have l: "LastIndexByte (host @ CHR '':'' # port) (CHR '':'') = Some (length host)"
    using assms(4) by (rule LastIndexByte_append)
  have h: "hd (host @ CHR '':'' # port) \<noteq> CHR ''[''"
    using assms(2) by (cases host) auto
  show ?thesis
    using assms by (simp add: SplitHostPort_def l h Let_def)
qed

lemma SplitHostPort_no_colon:
  "CHR '':'' \<notin> set s \<Longrightarrow> SplitHostPort s = Inl MissingPort"
  by (simp add: SplitHostPort_def LastIndexByte_def)

lemma datadogAddr_default:
  "datadogAddr [] = \<lparr>Address = ''127.0.0.1'', PortValue = 8126\<rparr>"
  "SplitHostPort override = Inl e \<Longrightarrow>
   datadogAddr override = \<lparr>Address = ''127.0.0.1'', PortValue = 8126\<rparr>"
  by (simp_all add: datadogAddr_def Let_def)

lemma datadogAddr_split:
  "override \<noteq> [] \<Longrightarrow> SplitHostPort override = Inr (a, p) \<Longrightarrow>
   datadogAddr override =
     \<lparr>Address = a,
      PortValue = (case ParseUint10 p 32 of Inr pv \<Rightarrow> word_of_nat pv | Inl e \<Rightarrow> 8126)\<rparr>"
  by (simp add: datadogAddr_def Let_def split: sum.splits)

lemma datadogAddr_examples:
  "datadogAddr ''myhost:abc'' = \<lparr>Address = ''myhost'', PortValue = 8126\<rparr>"
  "datadogAddr ''localhost:8127'' = \<lparr>Address = ''localhost'', PortValue = 8127\<rparr>"
  "datadogAddr ''localhost'' = \<lparr>Address = ''127.0.0.1'', PortValue = 8126\<rparr>"
proof -
  have "SplitHostPort (''myhost'' @ '':'' @ ''abc'') = Inr (''myhost'', ''abc'')"
    by (rule SplitHostPort_host_port) simp_all
  then show "datadogAddr ''myhost:abc'' = \<lparr>Address = ''myhost'', PortValue = 8126\<rparr>"
    by (simp add: datadogAddr_split ParseUint10_def isDigit_def byte_def)
  have "SplitHostPort (''localhost'' @ '':'' @ ''8127'') = Inr (''localhost'', ''8127'')"
    by (rule SplitHostPort_host_port) simp_all
  then show "datadogAddr ''localhost:8127'' = \<lparr>Address = ''localhost'', PortValue = 8127\<rparr>"
    by (simp add: datadogAddr_split ParseUint10_def isDigit_def byte_def)
  have "SplitHostPort ''localhost'' = Inl MissingPort"
    by (rule SplitHostPort_no_colon) simp
  then show "datadogAddr ''localhost'' = \<lparr>Address = ''127.0.0.1'', PortValue = 8126\<rparr>"
    by (rule datadogAddr_default)
qed

lemma bootstrapMessage_Inr:
  assumes "bootstrapMessage x srv cfg = Inr b"
  obtains adminAddr n where
    "ParseAddress x (EnvoyAdminAddress (Options cfg)) = Inr adminAddr"
    "Atoi (grpcPort srv) = Inr n"
    "Clusters (StaticResources b) =
       (if Provider (tracingOptions (options srv)) = DatadogTracingProviderName x
        then [staticCluster ''pomerium-control-plane-grpc''
                \<lparr>Address = ''127.0.0.1'', PortValue = word_of_int n\<rparr> True,
              staticCluster ''datadog-apm''
                (datadogAddr (DatadogAddress (tracingOptions (options srv)))) False]
        else [staticCluster ''pomerium-control-plane-grpc''
                \<lparr>Address = ''127.0.0.1'', PortValue = word_of_int n\<rparr> True])"
  using assms by (auto simp: bootstrapMessage_def Let_def split: sum.splits if_splits)

text \<open>
  C8, as the code has it. A bootstrap message that is built has two static clusters for
  the Datadog provider, the control plane and then \<^verbatim>\<open>datadog-apm\<close>, and the control
  plane alone for any other provider. The collector is at \<^verbatim>\<open>127.0.0.1:8126\<close> where
  the address of the options is empty or does not split into host and port (one
  without a colon, for one). Where it splits, the host is the one of the options, also
  when the port is no number; the port is the one of the options if that is a decimal
  number below \<open>2^32\<close> and 8126 if not. For a host and a port without colon and
  bracket, the address splits into the two.
\<close>

theorem bootstrap_static_clusters:
  assumes "bootstrapMessage x srv cfg = Inr b"
  shows "(Provider (tracingOptions (options srv)) = DatadogTracingProviderName x \<longrightarrow>
            length (Clusters (StaticResources b)) = 2
            \<and> Name (Clusters (StaticResources b) ! 0) = ''pomerium-control-plane-grpc''
            \<and> Clusters (StaticResources b) ! 1 =
                staticCluster ''datadog-apm''
                  (datadogAddr (DatadogAddress (tracingOptions (options srv)))) False)
         \<and> (Provider (tracingOptions (options srv)) \<noteq> DatadogTracingProviderName x \<longrightarrow>
               length (Clusters (StaticResources b)) = 1
               \<and> Name (Clusters (StaticResources b) ! 0) = ''pomerium-control-plane-grpc'')
         \<and> datadogAddr [] = \<lparr>Address = ''127.0.0.1'', PortValue = 8126\<rparr>
         \<and> (\<forall>override e. SplitHostPort override = Inl e \<longrightarrow>
               datadogAddr override = \<lparr>Address = ''127.0.0.1'', PortValue = 8126\<rparr>)
         \<and> (\<forall>override. CHR '':'' \<notin> set override \<longrightarrow>
               datadogAddr override = \<lparr>Address = ''127.0.0.1'', PortValue = 8126\<rparr>)
         \<and> (\<forall>override a p. override \<noteq> [] \<and> SplitHostPort override = Inr (a, p) \<longrightarrow>
               datadogAddr override =
                 \<lparr>Address = a,
                  PortValue = (case ParseUint10 p 32 of
                                 Inr pv \<Rightarrow> word_of_nat pv
                               | Inl e \<Rightarrow> 8126)\<rparr>)
         \<and> (\<forall>host port.
               CHR '':'' \<notin> set host \<and> CHR ''['' \<notin> set host \<and> CHR '']'' \<notin> set host
               \<and> CHR '':'' \<notin> set port \<and> CHR ''['' \<notin> set port \<and> CHR '']'' \<notin> set port
               \<longrightarrow> SplitHostPort (host @ '':'' @ port) = Inr (host, port))"
proof -
  from assms obtain adminAddr n where
    c: "Clusters (StaticResources b) =
       (if Provider (tracingOptions (options srv)) = DatadogTracingProviderName x
        then [staticCluster ''pomerium-control-plane-grpc''
                \<lparr>Address = ''127.0.0.1'', PortValue = word_of_int n\<rparr> True,
              staticCluster ''datadog-apm''
                (datadogAddr (DatadogAddress (tracingOptions (options srv)))) False]
        else [staticCluster ''pomerium-control-plane-grpc''
                \<lparr>Address = ''127.0.0.1'', PortValue = word_of_int n\<rparr> True])"
    by (rule bootstrapMessage_Inr)
  have 1: "Provider (tracingOptions (options srv)) = DatadogTracingProviderName x \<longrightarrow>
            length (Clusters (StaticResources b)) = 2
            \<and> Name (Clusters (StaticResources b) ! 0) = ''pomerium-control-plane-grpc''
            \<and> Clusters (StaticResources b) ! 1 =
                staticCluster ''datadog-apm''
                  (datadogAddr (DatadogAddress (tracingOptions (options srv)))) False"
    using c by (simp add: staticCluster_def)
  have 2: "Provider (tracingOptions (options srv)) \<noteq> DatadogTracingProviderName x \<longrightarrow>
               length (Clusters (StaticResources b)) = 1
               \<and> Name (Clusters (StaticResources b) ! 0) = ''pomerium-control-plane-grpc''"
    using c by (simp add: staticCluster_def)
  have 3: "\<forall>override. CHR '':'' \<notin> set override \<longrightarrow>
               datadogAddr override = \<lparr>Address = ''127.0.0.1'', PortValue = 8126\<rparr>"
    using SplitHostPort_no_colon datadogAddr_default(2) by blast
  show ?thesis
    using 1 2 3 datadogAddr_default datadogAddr_split SplitHostPort_host_port by blast
qed

text \<open>
  A server with the Datadog provider and the collector at \<^verbatim>\<open>localhost:8127\<close>: two
  clusters, the second one at that address.
\<close>

theorem bootstrap_static_clusters_witness:
  "(\<exists>b. bootstrapMessage exampleExt
           (exampleServer\<lparr>options := \<lparr>services = ''all'', logLevel = ''info'',
               tracingOptions = \<lparr>Provider = ''datadog'', DatadogAddress = ''localhost:8127''\<rparr>\<rparr>\<rparr>)
           (exampleConfig ''all'' ''datadog'') = Inr b
         \<and> length (Clusters (StaticResources b)) = 2
         \<and> Name (Clusters (StaticResources b) ! 0) = ''pomerium-control-plane-grpc''
         \<and> Clusters (StaticResources b) ! 1 =
             staticCluster ''datadog-apm'' \<lparr>Address = ''localhost'', PortValue = 8127\<rparr> False)
   \<and> SplitHostPort ''localhost:8127'' = Inr (''localhost'', ''8127'')"
proof -
  let ?srv = "exampleServer\<lparr>options := \<lparr>services = ''all'', logLevel = ''info'',
               tracingOptions = \<lparr>Provider = ''datadog'', DatadogAddress = ''localhost:8127''\<rparr>\<rparr>\<rparr>"
  have g: "grpcPort ?srv = ''5443''" by (simp add: exampleServer_def)
  obtain b where b: "bootstrapMessage exampleExt ?srv (exampleConfig ''all'' ''datadog'') = Inr b"
    using example_bootstrapMessage [OF g] by blast
  have p: "Provider (tracingOptions (options ?srv)) = DatadogTracingProviderName exampleExt"
    by (simp add: exampleExt_simps)
  have s: "CHR '':'' \<notin> set ''localhost'' \<and> CHR ''['' \<notin> set ''localhost''
           \<and> CHR '']'' \<notin> set ''localhost'' \<and> CHR '':'' \<notin> set ''8127''
           \<and> CHR ''['' \<notin> set ''8127'' \<and> CHR '']'' \<notin> set ''8127''"
    by simp
  from bootstrap_static_clusters [OF b] p s
  have "length (Clusters (StaticResources b)) = 2
         \<and> Name (Clusters (StaticResources b) ! 0) = ''pomerium-control-plane-grpc''
         \<and> Clusters (StaticResources b) ! 1 =
             staticCluster ''datadog-apm'' (datadogAddr ''localhost:8127'') False"
    and "SplitHostPort (''localhost'' @ '':'' @ ''8127'') = Inr (''localhost'', ''8127'')"
    by (simp, blast)
  with b show ?thesis by (auto simp: datadogAddr_examples)
qed

text \<open>
  C8 as it is written does not hold for the address \<^verbatim>\<open>myhost:abc\<close>, which splits
  into a host and a port that is no number: the collector is then neither at the default
  address nor at the one of the options, but at \<^verbatim>\<open>myhost:8126\<close>.
\<close>

theorem bootstrap_static_clusters_counterexample:
  "map (\<lambda>c. (Name c, Endpoints (LoadAssignment c)))
     (case bootstrapMessage exampleExt
             (exampleServer\<lparr>options := \<lparr>services = ''all'', logLevel = ''info'',
                 tracingOptions = \<lparr>Provider = ''datadog'', DatadogAddress = ''myhost:abc''\<rparr>\<rparr>\<rparr>)
             (exampleConfig ''all'' ''datadog'') of
        Inr b \<Rightarrow> Clusters (StaticResources b)
      | Inl e \<Rightarrow> []) =
     [(''pomerium-control-plane-grpc'', [[\<lparr>Address = ''127.0.0.1'', PortValue = 5443\<rparr>]]),
      (''datadog-apm'', [[\<lparr>Address = ''myhost'', PortValue = 8126\<rparr>]])]"
proof -
  let ?srv = "exampleServer\<lparr>options := \<lparr>services = ''all'', logLevel = ''info'',
                 tracingOptions = \<lparr>Provider = ''datadog'', DatadogAddress = ''myhost:abc''\<rparr>\<rparr>\<rparr>"
  have g: "grpcPort ?srv = ''5443''" by (simp add: exampleServer_def)
  show ?thesis
    unfolding example_bootstrapMessage [OF g]
    by (simp add: staticCluster_def datadogAddr_examples)
qed

text \<open>
  C9. Where the admin address parses: a control plane port that \<^verbatim>\<open>strconv.Atoi\<close>
  reads as the integer \<open>n\<close> gives a bootstrap message, with no error for the port, in
  which the port of the control plane endpoint is \<open>n\<close> modulo \<open>2^32\<close> (what
  \<^verbatim>\<open>buildBootstrapConfig\<close> then returns is what the marshaller returns for this
  message); a port that \<^verbatim>\<open>strconv.Atoi\<close> refuses gives the error of the invalid
  control plane port, and nothing else gives that error.
\<close>

theorem bootstrap_control_plane_port:
  assumes "ParseAddress x (EnvoyAdminAddress (Options cfg)) = Inr adminAddr"
  shows "(\<forall>n. Atoi (grpcPort srv) = Inr n \<longrightarrow>
            (\<exists>b. bootstrapMessage x srv cfg = Inr b
                  \<and> buildBootstrapConfig x srv cfg = Marshal x b
                  \<and> Name (hd (Clusters (StaticResources b))) = ''pomerium-control-plane-grpc''
                  \<and> Endpoints (LoadAssignment (hd (Clusters (StaticResources b)))) =
                      [[\<lparr>Address = ''127.0.0.1'', PortValue = word_of_int n\<rparr>]]
                  \<and> uint (PortValue (hd (hd (Endpoints (LoadAssignment
                            (hd (Clusters (StaticResources b)))))))) = n mod 2 ^ 32))
         \<and> (\<forall>e. Atoi (grpcPort srv) = Inl e \<longrightarrow>
               bootstrapMessage x srv cfg = Inl (ErrInvalidControlPlanePort (StrconvError e))
               \<and> buildBootstrapConfig x srv cfg
                   = Inl (ErrInvalidControlPlanePort (StrconvError e)))
         \<and> ((\<exists>err. bootstrapMessage x srv cfg = Inl (ErrInvalidControlPlanePort err)) \<longrightarrow>
               (\<exists>e. Atoi (grpcPort srv) = Inl e))"
  using assms
  by (auto simp: bootstrapMessage_def buildBootstrapConfig_def staticCluster_def Let_def
      uint_word_of_int split: sum.splits)

text \<open>The port \<^verbatim>\<open>-1\<close> is read as -1 and gives port 4294967295.\<close>

theorem bootstrap_control_plane_port_witness:
  "Atoi ''-1'' = Inr (- 1)
   \<and> (\<exists>b. bootstrapMessage exampleExt (exampleServer\<lparr>grpcPort := ''-1''\<rparr>)
             (exampleConfig ''proxy'' []) = Inr b
          \<and> Endpoints (LoadAssignment (hd (Clusters (StaticResources b)))) =
              [[\<lparr>Address = ''127.0.0.1'', PortValue = 4294967295\<rparr>]])
   \<and> bootstrapMessage exampleExt (exampleServer\<lparr>grpcPort := ''http''\<rparr>)
       (exampleConfig ''proxy'' []) = Inl (ErrInvalidControlPlanePort (StrconvError ErrSyntax))"
proof -
  have a: "ParseAddress exampleExt (EnvoyAdminAddress (Options (exampleConfig ''proxy'' [])))
           = Inr (Address_SocketAddress \<lparr>Address = ''127.0.0.1'', PortValue = 9901\<rparr>)"
    by (simp add: exampleExt_def exampleConfig_def)
  have m: "Atoi (grpcPort (exampleServer\<lparr>grpcPort := ''-1''\<rparr>)) = Inr (- 1)"
    by (simp add: Atoi_def ParseUint10_def isDigit_def byte_def)
  have h: "Atoi (grpcPort (exampleServer\<lparr>grpcPort := ''http''\<rparr>)) = Inl ErrSyntax"
    by (simp add: Atoi_def ParseUint10_def isDigit_def byte_def)
  have w: "(word_of_int (- 1) :: 32 word) = 4294967295" by simp
  from bootstrap_control_plane_port [OF a, of "exampleServer\<lparr>grpcPort := ''-1''\<rparr>"] m
  have "\<exists>b. bootstrapMessage exampleExt (exampleServer\<lparr>grpcPort := ''-1''\<rparr>)
             (exampleConfig ''proxy'' []) = Inr b
          \<and> Endpoints (LoadAssignment (hd (Clusters (StaticResources b)))) =
              [[\<lparr>Address = ''127.0.0.1'', PortValue = word_of_int (- 1)\<rparr>]]"
    by blast
  moreover from bootstrap_control_plane_port [OF a, of "exampleServer\<lparr>grpcPort := ''http''\<rparr>"] h
  have "bootstrapMessage exampleExt (exampleServer\<lparr>grpcPort := ''http''\<rparr>)
       (exampleConfig ''proxy'' []) = Inl (ErrInvalidControlPlanePort (StrconvError ErrSyntax))"
    by blast
  moreover have "Atoi ''-1'' = Inr (- 1)" using m by simp
  ultimately show ?thesis unfolding w by blast
qed

section \<open>The log relay\<close>










lemma space_not_in_class: "isSpace w \<Longrightarrow> \<not> fileNameClass w"
  by (auto simp: fileNameClass_def isSpace_def Let_def)

lemma fileNameAndNumberRE_Some:
  assumes "fileNameAndNumberRE s = Some (g1, g2)"
  obtains seg w where "s = CHR ''['' # seg @ w # g2" "g1 = CHR ''['' # seg"
    "seg = takeWhile fileNameClass (tl s)" "isSpace w" "CHR 0x0A \<notin> set g2" "fileAndLine seg"
proof -
  from assms obtain c t where ct: "s = c # t"
    by (cases s) (simp_all add: fileNameAndNumberRE_def)
  with assms have c: "c = CHR ''[''"
    by (cases "c = CHR ''[''") (simp_all add: fileNameAndNumberRE_def)
  let ?seg = "takeWhile fileNameClass t"
  have e: "fileNameAndNumberRE s =
      (case dropWhile fileNameClass t of
         [] \<Rightarrow> None
       | w # rest \<Rightarrow>
           if isSpace w \<and> CHR 0x0A \<notin> set rest \<and> fileAndLine ?seg
           then Some (CHR ''['' # ?seg, rest) else None)"
    using ct c by (simp add: fileNameAndNumberRE_def)
  from assms e obtain w rest where d: "dropWhile fileNameClass t = w # rest"
    by (cases "dropWhile fileNameClass t") simp_all
  with assms e have ok: "isSpace w \<and> CHR 0x0A \<notin> set rest \<and> fileAndLine ?seg"
    by (cases "isSpace w \<and> CHR 0x0A \<notin> set rest \<and> fileAndLine ?seg") simp_all
  with assms e d have g: "g1 = CHR ''['' # ?seg" "g2 = rest" by simp_all
  have "?seg @ dropWhile fileNameClass t = t" by simp
  with d g have t: "?seg @ w # g2 = t" by simp
  show ?thesis
  proof (rule that [of ?seg w])
    show "s = CHR ''['' # ?seg @ w # g2" using ct c t by simp
    show "g1 = CHR ''['' # ?seg" by (rule g(1))
    show "?seg = takeWhile fileNameClass (tl s)" using ct by simp
    show "isSpace w" using ok by simp
    show "CHR 0x0A \<notin> set g2" using ok g(2) by simp
    show "fileAndLine ?seg" using ok by simp
  qed
qed







lemma fileAndLine_shape:
  assumes "file \<noteq> []" and "digits \<noteq> []" and "\<forall>c\<in>set digits. isDigit c"
  shows "fileAndLine (file @ '':'' @ digits @ '']'')"
proof -
  have nd: "\<not> isDigit (CHR '':'')" by (simp add: isDigit_def byte_def)
  have b: "butlast (file @ '':'' @ digits @ '']'') = file @ '':'' @ digits"
    by (simp add: butlast_append)
  have t: "takeWhile isDigit (rev digits @ CHR '':'' # rev file) = rev digits"
    using assms(3) nd by (subst takeWhile_append2) auto
  have d: "dropWhile isDigit (rev digits @ CHR '':'' # rev file) = CHR '':'' # rev file"
    using assms(3) nd by (subst dropWhile_append2) auto
  show ?thesis
    unfolding fileAndLine_def b using assms(1,2) by (simp add: Let_def t d nd)
qed

lemma fileNameAndNumberRE_shape:
  assumes "file \<noteq> []" and "\<forall>c\<in>set file. fileNameClass c"
    and "digits \<noteq> []" and "\<forall>c\<in>set digits. isDigit c"
    and "isSpace w" and "CHR 0x0A \<notin> set rest"
  shows "fileNameAndNumberRE (''['' @ file @ '':'' @ digits @ '']'' @ [w] @ rest) =
           Some (''['' @ file @ '':'' @ digits @ '']'', rest)"
proof -
  let ?seg = "file @ '':'' @ digits @ '']''"
  have dc: "fileNameClass c" if "isDigit c" for c
    using that by (auto simp: isDigit_def fileNameClass_def Let_def)
  have cls: "\<forall>c\<in>set ?seg. fileNameClass c"
    using assms(2,4) dc by (auto simp: fileNameClass_def byte_def)
  have nw: "\<not> fileNameClass w" using assms(5) by (rule space_not_in_class)
  have t: "takeWhile fileNameClass (?seg @ w # rest) = ?seg"
    using cls nw by (subst takeWhile_append2) auto
  have d: "dropWhile fileNameClass (?seg @ w # rest) = w # rest"
    using cls nw by (subst dropWhile_append2) auto
  have f: "fileAndLine ?seg" using assms(1,3,4) by (rule fileAndLine_shape)
  have "fileNameAndNumberRE (CHR ''['' # ?seg @ w # rest) = Some (CHR ''['' # ?seg, rest)"
    unfolding fileNameAndNumberRE_def list.case using assms(5,6) f
    by (simp only: t d list.case simp_thms if_True if_False)
  then show ?thesis by simp
qed

lemma fileAndLine_parts:
  assumes "fileAndLine seg"
  obtains fname digits where "seg = fname @ '':'' @ digits @ '']''" "fname \<noteq> []"
    "digits \<noteq> []" "\<forall>c\<in>set digits. isDigit c"
proof -
  let ?inner = "butlast seg"
  let ?digits = "rev (takeWhile isDigit (rev ?inner))"
  let ?front = "rev (dropWhile isDigit (rev ?inner))"
  from assms have s: "seg \<noteq> []" "last seg = CHR '']''" and d: "?digits \<noteq> []"
    and f: "?front \<noteq> []" "last ?front = CHR '':''" "butlast ?front \<noteq> []"
    by (simp_all add: fileAndLine_def Let_def)
  have "rev ?inner = takeWhile isDigit (rev ?inner) @ dropWhile isDigit (rev ?inner)" by simp
  then have "rev (rev ?inner) = rev (takeWhile isDigit (rev ?inner) @ dropWhile isDigit (rev ?inner))"
    by (rule arg_cong)
  then have i: "?inner = ?front @ ?digits" by (simp only: rev_rev_ident rev_append)
  from f(1,2) have fr: "?front = butlast ?front @ '':''"
    by (metis append_butlast_last_id append_Cons append_Nil)
  from s have "seg = ?inner @ '']''"
    by (metis append_butlast_last_id append_Cons append_Nil)
  with i fr have "seg = butlast ?front @ '':'' @ ?digits @ '']''"
    by (metis append.assoc)
  moreover have "\<forall>c\<in>set ?digits. isDigit c"
    by (auto dest: set_takeWhileD)
  ultimately show ?thesis using that f(3) d by blast
qed

text \<open>
  The function \<open>fileNameAndNumberRE\<close> accepts the texts of the regular expression and
  no other, with the two groups of the expression.
\<close>

lemma fileNameAndNumberRE_iff:
  "fileNameAndNumberRE s = Some (g1, g2) \<longleftrightarrow>
     (\<exists>fname digits w.
        s = ''['' @ fname @ '':'' @ digits @ '']'' @ [w] @ g2
        \<and> g1 = ''['' @ fname @ '':'' @ digits @ '']''
        \<and> fname \<noteq> [] \<and> (\<forall>c\<in>set fname. fileNameClass c)
        \<and> digits \<noteq> [] \<and> (\<forall>c\<in>set digits. isDigit c)
        \<and> isSpace w \<and> CHR 0x0A \<notin> set g2)"
proof
  assume "fileNameAndNumberRE s = Some (g1, g2)"
  then obtain seg w where m: "s = CHR ''['' # seg @ w # g2" "g1 = CHR ''['' # seg"
    "seg = takeWhile fileNameClass (tl s)" "isSpace w" "CHR 0x0A \<notin> set g2" "fileAndLine seg"
    by (rule fileNameAndNumberRE_Some)
  from m(6) obtain fname digits where p: "seg = fname @ '':'' @ digits @ '']''" "fname \<noteq> []"
    "digits \<noteq> []" "\<forall>c\<in>set digits. isDigit c"
    by (rule fileAndLine_parts)
  from m(3) have "\<forall>c\<in>set seg. fileNameClass c" by (auto dest: set_takeWhileD)
  with p(1) have "\<forall>c\<in>set fname. fileNameClass c" by simp
  moreover have "s = ''['' @ fname @ '':'' @ digits @ '']'' @ [w] @ g2"
    using m(1) p(1) by simp
  moreover have "g1 = ''['' @ fname @ '':'' @ digits @ '']''"
    using m(2) p(1) by simp
  ultimately show "\<exists>fname digits w.
        s = ''['' @ fname @ '':'' @ digits @ '']'' @ [w] @ g2
        \<and> g1 = ''['' @ fname @ '':'' @ digits @ '']''
        \<and> fname \<noteq> [] \<and> (\<forall>c\<in>set fname. fileNameClass c)
        \<and> digits \<noteq> [] \<and> (\<forall>c\<in>set digits. isDigit c)
        \<and> isSpace w \<and> CHR 0x0A \<notin> set g2"
    using p(2-4) m(4,5) by blast
next
  assume "\<exists>fname digits w.
        s = ''['' @ fname @ '':'' @ digits @ '']'' @ [w] @ g2
        \<and> g1 = ''['' @ fname @ '':'' @ digits @ '']''
        \<and> fname \<noteq> [] \<and> (\<forall>c\<in>set fname. fileNameClass c)
        \<and> digits \<noteq> [] \<and> (\<forall>c\<in>set digits. isDigit c)
        \<and> isSpace w \<and> CHR 0x0A \<notin> set g2"
  then obtain fname digits w where h: "s = ''['' @ fname @ '':'' @ digits @ '']'' @ [w] @ g2"
    "g1 = ''['' @ fname @ '':'' @ digits @ '']''"
    "fname \<noteq> []" "\<forall>c\<in>set fname. fileNameClass c"
    "digits \<noteq> []" "\<forall>c\<in>set digits. isDigit c" "isSpace w" "CHR 0x0A \<notin> set g2"
    by blast
  from fileNameAndNumberRE_shape [OF h(3-8)] h(1,2)
  show "fileNameAndNumberRE s = Some (g1, g2)" by simp
qed













end
